theory Spec2Isabelle
  imports Main "HOL-Library.Multiset"
begin

section \<open>Data model (snyk\_api.py)\<close>

text \<open>
  Python values that may be \<^verbatim>\<open>None\<close> (identifiers read with \<^verbatim>\<open>.get('id')\<close>, constructor
  arguments defaulting to \<^verbatim>\<open>None\<close>) are \<open>string option\<close>; \<open>None\<close> is Python's
  \<^verbatim>\<open>None\<close>. \<open>falsy x\<close> is Python's \<^verbatim>\<open>not x\<close> on such a value.
\<close>

type_synonym pystr = "string option"

definition falsy :: "pystr \<Rightarrow> bool" where
  "falsy x = (x = None \<or> x = Some [])"

text \<open>The dataclasses \<^verbatim>\<open>Organization\<close>, \<^verbatim>\<open>BrokerConnection\<close>, \<^verbatim>\<open>BrokerIntegration\<close>.\<close>

record organization =
  org_id :: pystr
  org_name :: string
  org_slug :: string
  org_group_id :: string
  is_personal :: bool
  access_requests_enabled :: bool
  created_at :: string
  updated_at :: string

record broker_connection =
  conn_id :: pystr
  conn_name :: string
  connection_type :: string
  deployment_id :: string

record broker_integration =
  integ_id :: pystr
  integ_org_id :: pystr
  integration_type :: pystr

text \<open>
  One element of the \<^verbatim>\<open>data\<close> array of a JSON response, before the defaults of
  \<^verbatim>\<open>attrs.get(key, default)\<close> are applied: \<open>None\<close> is an absent key.
\<close>

record org_data =
  od_id :: pystr
  od_name :: "string option"
  od_slug :: "string option"
  od_group_id :: "string option"
  od_is_personal :: "bool option"
  od_access_requests_enabled :: "bool option"
  od_created_at :: "string option"
  od_updated_at :: "string option"

record conn_data =
  cd_id :: pystr
  cd_name :: "string option"
  cd_connection_type :: "string option"
  cd_deployment_id :: "string option"

definition get_default :: "'a option \<Rightarrow> 'a \<Rightarrow> 'a" where
  "get_default v d = (case v of None \<Rightarrow> d | Some x \<Rightarrow> x)"

definition to_organization :: "org_data \<Rightarrow> organization" where
  "to_organization d =
     \<lparr> org_id = od_id d,
       org_name = get_default (od_name d) [],
       org_slug = get_default (od_slug d) [],
       org_group_id = get_default (od_group_id d) [],
       is_personal = get_default (od_is_personal d) False,
       access_requests_enabled = get_default (od_access_requests_enabled d) False,
       created_at = get_default (od_created_at d) [],
       updated_at = get_default (od_updated_at d) [] \<rparr>"

definition to_connection :: "conn_data \<Rightarrow> broker_connection" where
  "to_connection d =
     \<lparr> conn_id = cd_id d,
       conn_name = get_default (cd_name d) [],
       connection_type = get_default (cd_connection_type d) [],
       deployment_id = get_default (cd_deployment_id d) [] \<rparr>"

text \<open>The fields of \<^verbatim>\<open>SnykAPI\<close> that the modelled methods read.\<close>

record client =
  tenant_id :: pystr
  group_id :: pystr
  source_org_id :: pystr

text \<open>Exceptions, with the text \<^verbatim>\<open>str(e)\<close> gives.\<close>

datatype error =
    ValueError string
  | NameError string
  | AttributeError string
  | RequestException string

fun str_of :: "error \<Rightarrow> string" where
  "str_of (ValueError m) = m"
| "str_of (NameError m) = m"
| "str_of (AttributeError m) = m"
| "str_of (RequestException m) = m"

section \<open>The remote service\<close>

text \<open>
  Every call of \<^verbatim>\<open>_make_request\<close> that the modelled methods make, by method and URL:
  \<^item> \<open>GET_group_orgs url\<close>: \<^verbatim>\<open>GET url\<close> with \<^verbatim>\<open>version=2024-10-15, limit=100\<close>;
  \<^item> \<open>GET_org org v\<close>: \<^verbatim>\<open>GET /orgs/{org}\<close> with \<^verbatim>\<open>version=v\<close>;
  \<^item> \<open>GET_broker_connections org\<close>: \<^verbatim>\<open>GET /orgs/{org}/brokers/connections\<close>;
  \<^item> \<open>GET_broker_integrations tenant conn\<close>:
    \<^verbatim>\<open>GET /tenants/{tenant}/brokers/connections/{conn}/integrations\<close>;
  \<^item> \<open>DELETE_broker_integration tenant conn org integ\<close>:
    \<^verbatim>\<open>DELETE /tenants/{tenant}/brokers/connections/{conn}/orgs/{org}/integrations/{integ}\<close>;
  \<^item> \<open>POST_broker_integration tenant conn org type\<close>:
    \<^verbatim>\<open>POST /tenants/{tenant}/brokers/connections/{conn}/orgs/{org}/integration\<close> with the
    payload \<^verbatim>\<open>{'data': {'type': type}}\<close>.
\<close>

datatype request =
    GET_group_orgs string
  | GET_org pystr string
  | GET_broker_connections pystr
  | GET_broker_integrations pystr pystr
  | DELETE_broker_integration pystr pystr pystr pystr
  | POST_broker_integration pystr pystr pystr pystr

text \<open>
  The parsed JSON body of a response, by the fields the code reads from it. A body of
  another shape has none of the fields read, and \<^verbatim>\<open>.get\<close> gives the default.
\<close>

datatype body =
    OrgsPage "org_data list" "string option"
  | OrgDetails "string option"
  | Connections "conn_data list"
  | Integrations "broker_integration list"
  | NoContent

fun body_orgs :: "body \<Rightarrow> org_data list" where
  "body_orgs (OrgsPage ds nxt) = ds"
| "body_orgs b = []"

fun body_next :: "body \<Rightarrow> string option" where
  "body_next (OrgsPage ds nxt) = nxt"
| "body_next b = None"

text \<open>
  \<^verbatim>\<open>data.get('data')\<close> of an organization response: \<open>None\<close> when the body has no
  \<^verbatim>\<open>data\<close>, else \<^verbatim>\<open>attributes.name\<close> of the data, if it has one.
\<close>

fun body_data :: "body \<Rightarrow> string option option" where
  "body_data (OrgDetails n) = Some n"
| "body_data b = None"

fun body_connections :: "body \<Rightarrow> conn_data list" where
  "body_connections (Connections cs) = cs"
| "body_connections b = []"

fun body_integrations :: "body \<Rightarrow> broker_integration list" where
  "body_integrations (Integrations is) = is"
| "body_integrations b = []"

text \<open>
  What \<^verbatim>\<open>session.request\<close> does: it returns a response (status code and body) or raises.
  The service is a deterministic machine with a state of its own, \<open>'w\<close>; the state of a
  run is the state of the service and the list of the requests issued so far.
\<close>

datatype reply = Reply nat body | Raise string

type_synonym 'w remote = "'w \<Rightarrow> request \<Rightarrow> reply \<times> 'w"
type_synonym 'w run = "'w \<times> request list"

definition make_request :: "'w remote \<Rightarrow> request \<Rightarrow> 'w run \<Rightarrow> (error + nat \<times> body) \<times> 'w run" where
  "make_request respond rq s =
     (case respond (fst s) rq of
        (Reply code b, w') \<Rightarrow> (Inr (code, b), (w', snd s @ [rq]))
      | (Raise msg, w') \<Rightarrow> (Inl (RequestException msg), (w', snd s @ [rq])))"

section \<open>API gateway\<close>

subsection \<open>get\_organizations\_for\_group\<close>

definition absolute_url :: "string \<Rightarrow> string" where
  "absolute_url next_url =
     (if take 1 next_url = ''/'' then ''https://api.snyk.io'' @ next_url else next_url)"

text \<open>The \<^verbatim>\<open>while True\<close> loop; \<open>None\<close> is a run that never leaves it.\<close>

partial_function (option) group_orgs_loop ::
  "'w remote \<Rightarrow> string \<Rightarrow> organization list \<Rightarrow> 'w run \<Rightarrow>
     ((error + organization list) \<times> 'w run) option" where
  "group_orgs_loop respond url all_orgs s =
     (case make_request respond (GET_group_orgs url) s of
        (Inl e, s') \<Rightarrow> Some (Inl e, s')
      | (Inr (code, b), s') \<Rightarrow>
          if code = 200 then
            (if body_orgs b = [] then Some (Inr all_orgs, s')
             else if falsy (body_next b)
               then Some (Inr (all_orgs @ map to_organization (body_orgs b)), s')
               else group_orgs_loop respond (absolute_url (the (body_next b)))
                      (all_orgs @ map to_organization (body_orgs b)) s')
          else if code = 404 then Some (Inr [], s')
          else if code = 403 \<or> code = 401 then Some (Inr [], s')
          else Some (Inr [], s'))"

text \<open>The first URL: \<^verbatim>\<open>f"{self.base_url}/groups/{group_id}/orgs"\<close>.\<close>

definition group_orgs_url :: "string \<Rightarrow> string" where
  "group_orgs_url g = ''https://api.snyk.io/rest/groups/'' @ g @ ''/orgs''"

definition get_organizations_for_group ::
  "'w remote \<Rightarrow> client \<Rightarrow> pystr \<Rightarrow> 'w run \<Rightarrow> ((error + organization list) \<times> 'w run) option" where
  "get_organizations_for_group respond c gid s =
     (let group = (if gid = None then group_id c else gid) in
      if falsy group
        then Some (Inl (ValueError ''Group ID must be provided either as parameter or in constructor''), s)
        else group_orgs_loop respond (group_orgs_url (the group)) [] s)"

subsection \<open>validate\_organization\_access\<close>

definition versions :: "string list" where
  "versions = [''2024-10-15'', ''2023-05-29'', ''2023-06-18'']"

fun validate_versions :: "'w remote \<Rightarrow> pystr \<Rightarrow> string list \<Rightarrow> 'w run \<Rightarrow> (error + bool) \<times> 'w run" where
  "validate_versions respond org [] s = (Inr False, s)"
| "validate_versions respond org (v # vs) s =
     (case make_request respond (GET_org org v) s of
        (Inl e, s') \<Rightarrow> (Inl e, s')
      | (Inr (code, b), s') \<Rightarrow>
          if code = 200 then (Inr True, s')
          else if code = 404 then validate_versions respond org vs s'
          else if code = 403 \<or> code = 401 then (Inr False, s')
          else validate_versions respond org vs s')"

definition validate_organization_access :: "'w remote \<Rightarrow> pystr \<Rightarrow> 'w run \<Rightarrow> (error + bool) \<times> 'w run" where
  "validate_organization_access respond org s = validate_versions respond org versions s"

subsection \<open>get\_organization\_details, get\_organization\_name\<close>

definition get_organization_details ::
  "'w remote \<Rightarrow> pystr \<Rightarrow> 'w run \<Rightarrow> (error + string option option) \<times> 'w run" where
  "get_organization_details respond org s =
     (case make_request respond (GET_org org ''2024-10-15'') s of
        (Inl e, s') \<Rightarrow> (Inl e, s')
      | (Inr (code, b), s') \<Rightarrow> if code = 200 then (Inr (body_data b), s') else (Inr None, s'))"

definition get_organization_name :: "'w remote \<Rightarrow> pystr \<Rightarrow> 'w run \<Rightarrow> (error + pystr) \<times> 'w run" where
  "get_organization_name respond org s =
     (case get_organization_details respond org s of
        (Inl e, s') \<Rightarrow> (Inl e, s')
      | (Inr None, s') \<Rightarrow> (Inr org, s')
      | (Inr (Some attributes_name), s') \<Rightarrow>
          (case attributes_name of None \<Rightarrow> (Inr org, s') | Some n \<Rightarrow> (Inr (Some n), s')))"

subsection \<open>Broker connections and broker integrations\<close>

definition get_broker_connections ::
  "'w remote \<Rightarrow> client \<Rightarrow> pystr \<Rightarrow> 'w run \<Rightarrow> (error + broker_connection list) \<times> 'w run" where
  "get_broker_connections respond c oid s =
     (let org = (if oid = None then source_org_id c else oid) in
      if falsy org
        then (Inl (ValueError ''Organization ID must be provided either as parameter or in constructor''), s)
        else (case make_request respond (GET_broker_connections org) s of
                (Inl e, s') \<Rightarrow> (Inl e, s')
              | (Inr (code, b), s') \<Rightarrow>
                  if code = 200 then (Inr (map to_connection (body_connections b)), s')
                  else (Inr [], s')))"

definition get_broker_integrations_for_connection ::
  "'w remote \<Rightarrow> client \<Rightarrow> pystr \<Rightarrow> 'w run \<Rightarrow> (error + broker_integration list) \<times> 'w run" where
  "get_broker_integrations_for_connection respond c connection_id s =
     (if falsy (tenant_id c) then (Inl (ValueError ''Tenant ID must be provided in constructor''), s)
      else (case make_request respond (GET_broker_integrations (tenant_id c) connection_id) s of
              (Inl e, s') \<Rightarrow> (Inl e, s')
            | (Inr (code, b), s') \<Rightarrow>
                if code = 200 then (Inr (body_integrations b), s') else (Inr [], s')))"

definition delete_broker_integration ::
  "'w remote \<Rightarrow> client \<Rightarrow> pystr \<Rightarrow> pystr \<Rightarrow> pystr \<Rightarrow> 'w run \<Rightarrow> (error + bool) \<times> 'w run" where
  "delete_broker_integration respond c connection_id oid integration_id s =
     (if falsy (tenant_id c) then (Inl (ValueError ''Tenant ID must be provided in constructor''), s)
      else (case make_request respond
                   (DELETE_broker_integration (tenant_id c) connection_id oid integration_id) s of
              (Inl e, s') \<Rightarrow> (Inl e, s')
            | (Inr (code, b), s') \<Rightarrow> if code = 204 then (Inr True, s') else (Inr False, s')))"

text \<open>The parameter \<open>integration_id\<close> is only written to the debug log.\<close>

definition create_broker_integration ::
  "'w remote \<Rightarrow> client \<Rightarrow> pystr \<Rightarrow> pystr \<Rightarrow> pystr \<Rightarrow> pystr \<Rightarrow> 'w run \<Rightarrow> (error + bool) \<times> 'w run" where
  "create_broker_integration respond c connection_id oid integration_id itype s =
     (if falsy (tenant_id c) then (Inl (ValueError ''Tenant ID must be provided in constructor''), s)
      else (case make_request respond
                   (POST_broker_integration (tenant_id c) connection_id oid itype) s of
              (Inl e, s') \<Rightarrow> (Inl e, s')
            | (Inr (code, b), s') \<Rightarrow> if code = 201 then (Inr True, s') else (Inr False, s')))"

section \<open>Bulk orchestrator\<close>

text \<open>
  The comprehension \<^verbatim>\<open>[org for org in all_orgs if org.id != self.source_org_id]\<close> of
  \<^verbatim>\<open>get_target_organizations_for_broker_config\<close> and of
  \<^verbatim>\<open>configure_broker_for_organizations_bulk\<close>.
\<close>

definition target_orgs :: "client \<Rightarrow> organization list \<Rightarrow> organization list" where
  "target_orgs c all_orgs = filter (\<lambda>org. org_id org \<noteq> source_org_id c) all_orgs"

definition get_target_organizations_for_broker_config ::
  "'w remote \<Rightarrow> client \<Rightarrow> 'w run \<Rightarrow> ((error + organization list) \<times> 'w run) option" where
  "get_target_organizations_for_broker_config respond c s =
     (if falsy (group_id c) then Some (Inl (ValueError ''Group ID must be provided in constructor''), s)
      else if falsy (source_org_id c)
        then Some (Inl (ValueError ''Source organization ID must be provided in constructor''), s)
      else (case get_organizations_for_group respond c None s of
              None \<Rightarrow> None
            | Some (Inl e, s') \<Rightarrow> Some (Inl e, s')
            | Some (Inr all_orgs, s') \<Rightarrow> Some (Inr (target_orgs c all_orgs), s')))"

text \<open>
  The entries appended to the result lists: the dictionaries with the keys
  \<^verbatim>\<open>org_id, org_name, broker_connection_id, status\<close> (success) and
  \<^verbatim>\<open>org_id, org_name, reason\<close> (failed, skipped).
\<close>

record configured =
  c_org_id :: pystr
  c_org_name :: pystr
  c_broker_connection_id :: pystr
  c_status :: string

record not_configured =
  n_org_id :: pystr
  n_org_name :: pystr
  n_reason :: string

record results =
  success :: "configured list"
  failed :: "not_configured list"
  skipped :: "not_configured list"

definition empty_results :: results where
  "empty_results = \<lparr> success = [], failed = [], skipped = [] \<rparr>"

text \<open>\<^verbatim>\<open>repr\<close> of a string without quotes in it: the string in single quotes.\<close>

definition repr :: "string \<Rightarrow> string" where
  "repr x = [CHR 0x27] @ x @ [CHR 0x27]"

definition py_str :: "pystr \<Rightarrow> string" where
  "py_str x = (case x of None \<Rightarrow> ''None'' | Some v \<Rightarrow> v)"

subsection \<open>configure\_broker\_for\_organizations\_bulk\<close>

text \<open>Step 2, first half: the connection to replicate; \<open>Inr None\<close> is the early return.\<close>

definition resolve_connection ::
  "'w remote \<Rightarrow> client \<Rightarrow> pystr \<Rightarrow> 'w run \<Rightarrow> (error + pystr option) \<times> 'w run" where
  "resolve_connection respond c broker_connection_id s =
     (if falsy broker_connection_id then
        (case get_broker_connections respond c (source_org_id c) s of
           (Inl e, s') \<Rightarrow> (Inl e, s')
         | (Inr source_connections, s') \<Rightarrow>
             (case source_connections of
                [] \<Rightarrow> (Inr None, s')
              | conn # rest \<Rightarrow> (Inr (Some (conn_id conn)), s')))
      else (Inr (Some broker_connection_id), s))"

text \<open>Step 3: the loop over \<^verbatim>\<open>source_integrations\<close> that deletes.\<close>

fun deletion_pass ::
  "'w remote \<Rightarrow> client \<Rightarrow> pystr \<Rightarrow> broker_integration list \<Rightarrow> 'w run \<Rightarrow> (error + unit) \<times> 'w run" where
  "deletion_pass respond c conn [] s = (Inr (), s)"
| "deletion_pass respond c conn (integration # rest) s =
     (if integ_org_id integration \<noteq> source_org_id c then
        (case delete_broker_integration respond c conn (integ_org_id integration)
                (integ_id integration) s of
           (Inl e, s') \<Rightarrow> (Inl e, s')
         | (Inr ok, s') \<Rightarrow> deletion_pass respond c conn rest s')
      else deletion_pass respond c conn rest s)"

text \<open>Step 4: the body of the \<^verbatim>\<open>try\<close> block for one target organization.\<close>

definition try_configure_target ::
  "'w remote \<Rightarrow> client \<Rightarrow> pystr \<Rightarrow> broker_integration \<Rightarrow> organization \<Rightarrow> results \<Rightarrow> 'w run \<Rightarrow>
     (error + results) \<times> 'w run" where
  "try_configure_target respond c conn source_integration org res s =
     (case validate_organization_access respond (org_id org) s of
        (Inl e, s1) \<Rightarrow> (Inl e, s1)
      | (Inr accessible, s1) \<Rightarrow>
          if \<not> accessible then
            (Inr (res\<lparr>failed := failed res @
                    [\<lparr> n_org_id = org_id org, n_org_name = Some (org_name org),
                       n_reason = ''Access denied'' \<rparr>]\<rparr>), s1)
          else
            (case create_broker_integration respond c conn (org_id org)
                    (Some (py_str (org_id org) @ ''-'' @ py_str conn))
                    (integration_type source_integration) s1 of
               (Inl e, s2) \<Rightarrow> (Inl e, s2)
             | (Inr ok, s2) \<Rightarrow>
                 if ok then
                   (Inr (res\<lparr>success := success res @
                           [\<lparr> c_org_id = org_id org, c_org_name = Some (org_name org),
                              c_broker_connection_id = conn, c_status = ''configured'' \<rparr>]\<rparr>), s2)
                 else
                   (Inr (res\<lparr>failed := failed res @
                           [\<lparr> n_org_id = org_id org, n_org_name = Some (org_name org),
                              n_reason = ''Failed to create broker integration'' \<rparr>]\<rparr>), s2)))"

text \<open>One iteration: the \<^verbatim>\<open>try\<close> block with its \<^verbatim>\<open>except Exception as e\<close> handler.\<close>

definition configure_target ::
  "'w remote \<Rightarrow> client \<Rightarrow> pystr \<Rightarrow> broker_integration \<Rightarrow> organization \<Rightarrow> results \<Rightarrow> 'w run \<Rightarrow>
     results \<times> 'w run" where
  "configure_target respond c conn source_integration org res s =
     (case try_configure_target respond c conn source_integration org res s of
        (Inr res', s') \<Rightarrow> (res', s')
      | (Inl e, s') \<Rightarrow>
          (res\<lparr>failed := failed res @
              [\<lparr> n_org_id = org_id org, n_org_name = Some (org_name org),
                 n_reason = str_of e \<rparr>]\<rparr>, s'))"

fun creation_pass ::
  "'w remote \<Rightarrow> client \<Rightarrow> pystr \<Rightarrow> broker_integration \<Rightarrow> organization list \<Rightarrow> results \<Rightarrow> 'w run \<Rightarrow>
     results \<times> 'w run" where
  "creation_pass respond c conn source_integration [] res s = (res, s)"
| "creation_pass respond c conn source_integration (org # rest) res s =
     (case configure_target respond c conn source_integration org res s of
        (res', s') \<Rightarrow> creation_pass respond c conn source_integration rest res' s')"

text \<open>Steps 2 to 4, once the group's organizations are known and not empty.\<close>

definition bulk_steps ::
  "'w remote \<Rightarrow> client \<Rightarrow> pystr \<Rightarrow> organization list \<Rightarrow> 'w run \<Rightarrow> (error + results) \<times> 'w run" where
  "bulk_steps respond c broker_connection_id all_orgs s1 =
     (case resolve_connection respond c broker_connection_id s1 of
        (Inl e, s2) \<Rightarrow> (Inl e, s2)
      | (Inr None, s2) \<Rightarrow> (Inr empty_results, s2)
      | (Inr (Some conn), s2) \<Rightarrow>
          (case get_broker_integrations_for_connection respond c conn s2 of
             (Inl e, s3) \<Rightarrow> (Inl e, s3)
           | (Inr source_integrations, s3) \<Rightarrow>
               (case find (\<lambda>i. integ_org_id i = source_org_id c) source_integrations of
                  None \<Rightarrow> (Inr empty_results, s3)
                | Some source_integration \<Rightarrow>
                    (case deletion_pass respond c conn source_integrations s3 of
                       (Inl e, s4) \<Rightarrow> (Inl e, s4)
                     | (Inr u, s4) \<Rightarrow>
                         (case creation_pass respond c conn source_integration
                                 (target_orgs c all_orgs) empty_results s4 of
                            (res, s5) \<Rightarrow> (Inr res, s5))))))"

definition configure_broker_for_organizations_bulk ::
  "'w remote \<Rightarrow> client \<Rightarrow> pystr \<Rightarrow> 'w run \<Rightarrow> ((error + results) \<times> 'w run) option" where
  "configure_broker_for_organizations_bulk respond c broker_connection_id s =
     (case get_organizations_for_group respond c None s of
        None \<Rightarrow> None
      | Some (Inl e, s1) \<Rightarrow> Some (Inl e, s1)
      | Some (Inr all_orgs, s1) \<Rightarrow>
          if all_orgs = [] then Some (Inr empty_results, s1)
          else Some (bulk_steps respond c broker_connection_id all_orgs s1))"

subsection \<open>\_configure\_broker\_for\_org, configure\_broker\_for\_organizations\<close>

text \<open>
  The name \<^verbatim>\<open>integration_id\<close> that step 4 of \<^verbatim>\<open>_configure_broker_for_org\<close> passes to
  \<^verbatim>\<open>create_broker_integration\<close>: the function has no parameter and no local variable of
  that name, and the module has no global of that name, so evaluating it raises.
\<close>

definition integration_id :: "error + pystr" where
  "integration_id = Inl (NameError (''name '' @ repr ''integration_id'' @ '' is not defined''))"

text \<open>Step 3 of \<^verbatim>\<open>_configure_broker_for_org\<close>; \<open>Inr False\<close> is its \<^verbatim>\<open>return False\<close>.\<close>

fun remove_existing ::
  "'w remote \<Rightarrow> client \<Rightarrow> pystr \<Rightarrow> pystr \<Rightarrow> broker_integration list \<Rightarrow> 'w run \<Rightarrow> (error + bool) \<times> 'w run" where
  "remove_existing respond c conn oid [] s = (Inr True, s)"
| "remove_existing respond c conn oid (integration # rest) s =
     (if integ_org_id integration = oid then
        (case delete_broker_integration respond c conn oid (integ_id integration) s of
           (Inl e, s') \<Rightarrow> (Inl e, s')
         | (Inr ok, s') \<Rightarrow>
             if \<not> ok then (Inr False, s') else remove_existing respond c conn oid rest s')
      else remove_existing respond c conn oid rest s)"

definition try_configure_broker_for_org ::
  "'w remote \<Rightarrow> client \<Rightarrow> pystr \<Rightarrow> pystr \<Rightarrow> 'w run \<Rightarrow> (error + bool) \<times> 'w run" where
  "try_configure_broker_for_org respond c oid broker_connection_id s =
     (case get_broker_integrations_for_connection respond c broker_connection_id s of
        (Inl e, s1) \<Rightarrow> (Inl e, s1)
      | (Inr integrations, s1) \<Rightarrow>
          (case find (\<lambda>i. integ_org_id i = source_org_id c) integrations of
             None \<Rightarrow> (Inr False, s1)
           | Some source_integration \<Rightarrow>
               (case remove_existing respond c broker_connection_id oid integrations s1 of
                  (Inl e, s2) \<Rightarrow> (Inl e, s2)
                | (Inr removed, s2) \<Rightarrow>
                    if \<not> removed then (Inr False, s2)
                    else (case integration_id of
                            Inl e \<Rightarrow> (Inl e, s2)
                          | Inr iid \<Rightarrow>
                              (case create_broker_integration respond c broker_connection_id oid iid
                                      (integration_type source_integration) s2 of
                                 (Inl e, s3) \<Rightarrow> (Inl e, s3)
                               | (Inr ok, s3) \<Rightarrow> (Inr ok, s3))))))"

text \<open>The \<^verbatim>\<open>try\<close> block with its handler, which returns \<^verbatim>\<open>False\<close>.\<close>

definition configure_broker_for_org ::
  "'w remote \<Rightarrow> client \<Rightarrow> pystr \<Rightarrow> pystr \<Rightarrow> 'w run \<Rightarrow> bool \<times> 'w run" where
  "configure_broker_for_org respond c oid broker_connection_id s =
     (case try_configure_broker_for_org respond c oid broker_connection_id s of
        (Inl e, s') \<Rightarrow> (False, s')
      | (Inr ok, s') \<Rightarrow> (ok, s'))"

text \<open>The body of the \<^verbatim>\<open>try\<close> block of \<^verbatim>\<open>configure_broker_for_organizations\<close>.\<close>

definition try_configure_org ::
  "'w remote \<Rightarrow> client \<Rightarrow> pystr \<Rightarrow> pystr \<Rightarrow> results \<Rightarrow> 'w run \<Rightarrow> (error + results) \<times> 'w run" where
  "try_configure_org respond c broker_connection_id oid res s =
     (case validate_organization_access respond oid s of
        (Inl e, s1) \<Rightarrow> (Inl e, s1)
      | (Inr accessible, s1) \<Rightarrow>
          if \<not> accessible then
            (case get_organization_name respond oid s1 of
               (Inl e, s2) \<Rightarrow> (Inl e, s2)
             | (Inr name, s2) \<Rightarrow>
                 (Inr (res\<lparr>skipped := skipped res @
                         [\<lparr> n_org_id = oid, n_org_name = name,
                            n_reason = ''Organization not accessible'' \<rparr>]\<rparr>), s2))
          else
            (case configure_broker_for_org respond c oid broker_connection_id s1 of
               (ok, s2) \<Rightarrow>
                 (case get_organization_name respond oid s2 of
                    (Inl e, s3) \<Rightarrow> (Inl e, s3)
                  | (Inr name, s3) \<Rightarrow>
                      if ok then
                        (Inr (res\<lparr>success := success res @
                                [\<lparr> c_org_id = oid, c_org_name = name,
                                   c_broker_connection_id = broker_connection_id,
                                   c_status = ''configured'' \<rparr>]\<rparr>), s3)
                      else
                        (Inr (res\<lparr>failed := failed res @
                                [\<lparr> n_org_id = oid, n_org_name = name,
                                   n_reason = ''Failed to configure broker integration'' \<rparr>]\<rparr>), s3))))"

text \<open>
  One iteration. The handler calls \<^verbatim>\<open>get_organization_name\<close> itself, outside any
  \<^verbatim>\<open>try\<close>: an exception there leaves the function.
\<close>

definition configure_org ::
  "'w remote \<Rightarrow> client \<Rightarrow> pystr \<Rightarrow> pystr \<Rightarrow> results \<Rightarrow> 'w run \<Rightarrow> (error + results) \<times> 'w run" where
  "configure_org respond c broker_connection_id oid res s =
     (case try_configure_org respond c broker_connection_id oid res s of
        (Inr res', s') \<Rightarrow> (Inr res', s')
      | (Inl e, s') \<Rightarrow>
          (case get_organization_name respond oid s' of
             (Inl e', s'') \<Rightarrow> (Inl e', s'')
           | (Inr name, s'') \<Rightarrow>
               (Inr (res\<lparr>failed := failed res @
                       [\<lparr> n_org_id = oid, n_org_name = name,
                          n_reason = ''Exception: '' @ str_of e \<rparr>]\<rparr>), s'')))"

fun configure_orgs ::
  "'w remote \<Rightarrow> client \<Rightarrow> pystr \<Rightarrow> pystr list \<Rightarrow> results \<Rightarrow> 'w run \<Rightarrow> (error + results) \<times> 'w run" where
  "configure_orgs respond c broker_connection_id [] res s = (Inr res, s)"
| "configure_orgs respond c broker_connection_id (oid # rest) res s =
     (case configure_org respond c broker_connection_id oid res s of
        (Inl e, s') \<Rightarrow> (Inl e, s')
      | (Inr res', s') \<Rightarrow> configure_orgs respond c broker_connection_id rest res' s')"

definition configure_broker_for_organizations ::
  "'w remote \<Rightarrow> client \<Rightarrow> pystr \<Rightarrow> pystr list option \<Rightarrow> 'w run \<Rightarrow> ((error + results) \<times> 'w run) option" where
  "configure_broker_for_organizations respond c broker_connection_id target_org_ids s =
     (case target_org_ids of
        Some ids \<Rightarrow> Some (configure_orgs respond c broker_connection_id ids empty_results s)
      | None \<Rightarrow>
          (case get_target_organizations_for_broker_config respond c s of
             None \<Rightarrow> None
           | Some (Inl e, s') \<Rightarrow> Some (Inl e, s')
           | Some (Inr targets, s') \<Rightarrow>
               Some (configure_orgs respond c broker_connection_id (map org_id targets)
                       empty_results s')))"

section \<open>Removal mode of main (broker\_mass\_configure.py)\<close>

text \<open>
  The attributes of a \<^verbatim>\<open>SnykAPI\<close> object: the fields \<^verbatim>\<open>__init__\<close> sets and the methods the
  class defines. The class has no base class and no \<^verbatim>\<open>__getattr__\<close>.
\<close>

definition SnykAPI_attributes :: "string list" where
  "SnykAPI_attributes =
     [''token'', ''tenant_id'', ''group_id'', ''source_org_id'', ''region'', ''debug'',
      ''base_url'', ''session'', ''logger'',
      ''__init__'', ''_debug_log'', ''_make_request'', ''get_organizations'',
      ''get_organizations_for_group'', ''_get_group_orgs_with_version'',
      ''validate_organization_access'', ''get_organization_details'',
      ''get_organization_name'', ''get_targets_for_org'', ''_get_targets_with_version'',
      ''get_projects_for_org'', ''get_project_details'', ''get_integrations_for_org'',
      ''create_integration'', ''update_integration'', ''delete_integration'',
      ''get_broker_integrations'', ''configure_broker_integration'', ''mass_configure_broker'',
      ''get_organization_settings'', ''update_organization_settings'',
      ''get_broker_connections'', ''get_target_organizations_for_broker_config'',
      ''configure_broker_for_organizations_bulk'', ''configure_broker_for_organizations'',
      ''get_broker_integrations_for_connection'', ''delete_broker_integration'',
      ''create_broker_integration'', ''_configure_broker_for_org'']"

definition getattr_SnykAPI :: "string \<Rightarrow> error + string" where
  "getattr_SnykAPI name =
     (if name \<in> set SnykAPI_attributes then Inr name
      else Inl (AttributeError (repr ''SnykAPI'' @ '' object has no attribute '' @ repr name)))"

text \<open>
  How a run of \<^verbatim>\<open>main\<close> ends: it returns after printing the results it got, or the handler
  of its \<^verbatim>\<open>try\<close> block prints the exception and calls \<^verbatim>\<open>sys.exit(1)\<close>.
\<close>

datatype 'r ending = Completed 'r | SysExit nat string

text \<open>
  The branch \<^verbatim>\<open>if args.remove_connection\<close>. The expression
  \<^verbatim>\<open>snyk.remove_connection_from_all_orgs\<close> is an attribute lookup on the client; \<open>method\<close>
  stands for what the attribute would be bound to.
\<close>

definition main_removal_mode ::
  "(pystr \<Rightarrow> pystr \<Rightarrow> bool \<Rightarrow> 'w run \<Rightarrow> (error + 'r) \<times> 'w run) \<Rightarrow>
     pystr \<Rightarrow> pystr \<Rightarrow> bool \<Rightarrow> 'w run \<Rightarrow> 'r ending \<times> 'w run" where
  "main_removal_mode method connection_id gid dry_run s =
     (case getattr_SnykAPI ''remove_connection_from_all_orgs'' of
        Inl e \<Rightarrow> (SysExit 1 (str_of e), s)
      | Inr name \<Rightarrow>
          (case method connection_id gid dry_run s of
             (Inl e, s') \<Rightarrow> (SysExit 1 (str_of e), s')
           | (Inr results, s') \<Rightarrow> (Completed results, s')))"

section \<open>Notions used to state the properties\<close>

subsection \<open>Requests that change the remote state\<close>

fun is_mutation :: "request \<Rightarrow> bool" where
  "is_mutation (DELETE_broker_integration t conn org i) = True"
| "is_mutation (POST_broker_integration t conn org ty) = True"
| "is_mutation rq = False"

text \<open>A create or delete call whose organization id is \<open>S\<close>.\<close>

fun mutates :: "pystr \<Rightarrow> request \<Rightarrow> bool" where
  "mutates S (DELETE_broker_integration t conn org i) = (org = S)"
| "mutates S (POST_broker_integration t conn org ty) = (org = S)"
| "mutates S rq = False"

text \<open>The organization ids recorded in the success and failed lists.\<close>

definition recorded_ids :: "results \<Rightarrow> pystr list" where
  "recorded_ids res = map c_org_id (success res) @ map n_org_id (failed res)"

subsection \<open>The rule of validate\_organization\_access, on status codes\<close>

fun status :: "reply \<Rightarrow> nat option" where
  "status (Reply code b) = Some code"
| "status (Raise msg) = None"

text \<open>The replies of the service to the probes of the versions \<open>vs\<close>, in order, from state \<open>w\<close>.\<close>

fun probe_replies :: "'w remote \<Rightarrow> pystr \<Rightarrow> string list \<Rightarrow> 'w \<Rightarrow> reply list" where
  "probe_replies respond org [] w = []"
| "probe_replies respond org (v # vs) w =
     (case respond w (GET_org org v) of (rep, w') \<Rightarrow> rep # probe_replies respond org vs w')"

text \<open>
  The rule as the specification words it, on the status codes of the versions in order:
  the first 200 gives true, the first 401 or 403 gives false, any other status passes to
  the next version, and the end of the list gives false.
\<close>

fun access_by_status :: "nat list \<Rightarrow> bool" where
  "access_by_status [] = False"
| "access_by_status (code # rest) =
     (if code = 200 then True
      else if code = 401 \<or> code = 403 then False
      else access_by_status rest)"

text \<open>The number of versions tried under that rule.\<close>

fun probes_made :: "nat list \<Rightarrow> nat" where
  "probes_made [] = 0"
| "probes_made (code # rest) =
     (if code = 200 \<or> code = 401 \<or> code = 403 then 1 else 1 + probes_made rest)"

subsection \<open>A group served in pages\<close>

text \<open>
  \<open>serves respond w url pages\<close>: from state \<open>w\<close>, the service answers the request for
  \<open>url\<close> and then for each \<^verbatim>\<open>links.next\<close> in turn with status 200 and the pages
  \<open>pages\<close> in order; every page but the last is not empty and carries a next link, and
  the last page carries no next link or is empty.
\<close>

fun serves :: "'w remote \<Rightarrow> 'w \<Rightarrow> string \<Rightarrow> org_data list list \<Rightarrow> bool" where
  "serves respond w url [] = False"
| "serves respond w url [page] =
     (case respond w (GET_group_orgs url) of
        (Reply code b, w') \<Rightarrow>
          code = 200 \<and> body_orgs b = page \<and> (page = [] \<or> falsy (body_next b))
      | (Raise msg, w') \<Rightarrow> False)"
| "serves respond w url (page # next_page # later) =
     (case respond w (GET_group_orgs url) of
        (Reply code b, w') \<Rightarrow>
          code = 200 \<and> body_orgs b = page \<and> page \<noteq> [] \<and> \<not> falsy (body_next b) \<and>
          serves respond w' (absolute_url (the (body_next b))) (next_page # later)
      | (Raise msg, w') \<Rightarrow> False)"

subsection \<open>A scripted service\<close>

text \<open>
  A service whose state is the list of the replies it has still to give: it answers each
  request with the next one. It serves to run the model on concrete inputs.
\<close>

fun scripted :: "reply list remote" where
  "scripted [] rq = (Raise ''no reply'', [])"
| "scripted (rep # rest) rq = (rep, rest)"

definition org_entry :: "string \<Rightarrow> org_data" where
  "org_entry i =
     \<lparr> od_id = Some i, od_name = Some (''Org '' @ i), od_slug = None, od_group_id = None,
       od_is_personal = None, od_access_requests_enabled = None, od_created_at = None,
       od_updated_at = None \<rparr>"

definition integration_of :: "string \<Rightarrow> string \<Rightarrow> broker_integration" where
  "integration_of i org =
     \<lparr> integ_id = Some i, integ_org_id = Some org, integration_type = Some ''bitbucket-server'' \<rparr>"

definition example_client :: client where
  "example_client = \<lparr> tenant_id = Some ''T'', group_id = Some ''G'', source_org_id = Some ''A'' \<rparr>"

subsection \<open>Requests issued by a step\<close>

text \<open>
  \<open>issues_only P s s'\<close>: the run \<open>s'\<close> continues the run \<open>s\<close>, and every request issued
  in between satisfies \<open>P\<close>.
\<close>

definition issues_only :: "(request \<Rightarrow> bool) \<Rightarrow> 'w run \<Rightarrow> 'w run \<Rightarrow> bool" where
  "issues_only P s s' = (\<exists>new. snd s' = snd s @ new \<and> list_all P new)"

subsection \<open>The example of the specification\<close>

text \<open>
  The group has the organizations A (the source), B and C; the source has the connection
  conn1 with an integration of type bitbucket-server; B has a stale integration on conn1
  and C has none. The service answers every request with success.
\<close>

definition example_replies :: "reply list" where
  "example_replies =
     [Reply 200 (OrgsPage [org_entry ''A'', org_entry ''B'', org_entry ''C''] None),
      Reply 200 (Connections [\<lparr> cd_id = Some ''conn1'', cd_name = None,
                                cd_connection_type = None, cd_deployment_id = None \<rparr>]),
      Reply 200 (Integrations [integration_of ''i1'' ''A'', integration_of ''i2'' ''B'']),
      Reply 204 NoContent,
      Reply 200 NoContent,
      Reply 201 NoContent,
      Reply 200 NoContent,
      Reply 201 NoContent]"

definition example_orgs :: "organization list" where
  "example_orgs = map to_organization [org_entry ''A'', org_entry ''B'', org_entry ''C'']"

definition configured_entry :: "string \<Rightarrow> configured" where
  "configured_entry i =
     \<lparr> c_org_id = Some i, c_org_name = Some (''Org '' @ i),
       c_broker_connection_id = Some ''conn1'', c_status = ''configured'' \<rparr>"

definition example_result :: results where
  "example_result =
     \<lparr> success = [configured_entry ''B'', configured_entry ''C''], failed = [], skipped = [] \<rparr>"

definition example_trace :: "request list" where
  "example_trace =
     [GET_group_orgs (group_orgs_url ''G''),
      GET_broker_connections (Some ''A''),
      GET_broker_integrations (Some ''T'') (Some ''conn1''),
      DELETE_broker_integration (Some ''T'') (Some ''conn1'') (Some ''B'') (Some ''i2''),
      GET_org (Some ''B'') ''2024-10-15'',
      POST_broker_integration (Some ''T'') (Some ''conn1'') (Some ''B'') (Some ''bitbucket-server''),
      GET_org (Some ''C'') ''2024-10-15'',
      POST_broker_integration (Some ''T'') (Some ''conn1'') (Some ''C'') (Some ''bitbucket-server'')]"

text \<open>A group of three organizations served in two pages.\<close>

definition paged_replies :: "reply list" where
  "paged_replies =
     [Reply 200 (OrgsPage [org_entry ''A'', org_entry ''B'']
                   (Some ''/rest/groups/G/orgs?starting_after=B'')),
      Reply 200 (OrgsPage [org_entry ''C''] None)]"

text \<open>Replies to the creation pass over B and C: the first probe of B raises.\<close>

definition raising_replies :: "reply list" where
  "raising_replies = [Raise ''Connection aborted'', Reply 200 NoContent, Reply 201 NoContent]"

text \<open>
  Replies under which a precondition of the configure workflow fails: an empty group, a
  source organization without connection, a connection without integration of the source.
\<close>

definition two_orgs :: reply where
  "two_orgs = Reply 200 (OrgsPage [org_entry ''A'', org_entry ''B''] None)"

definition empty_group_replies :: "reply list" where
  "empty_group_replies = [Reply 200 (OrgsPage [] None)]"

definition no_connection_replies :: "reply list" where
  "no_connection_replies = [two_orgs, Reply 200 (Connections [])]"

definition no_source_integration_replies :: "reply list" where
  "no_source_integration_replies =
     [two_orgs, Reply 200 (Integrations [integration_of ''i2'' ''B''])]"

text \<open>
  Replies to the per-organization workflow for B: B is accessible and has a stale
  integration, which the service deletes.
\<close>

definition per_org_replies :: "reply list" where
  "per_org_replies =
     [Reply 200 NoContent,
      Reply 200 (Integrations [integration_of ''i1'' ''A'', integration_of ''i2'' ''B'']),
      Reply 204 NoContent,
      Reply 200 (OrgDetails (Some ''Org B''))]"

definition per_org_result :: results where
  "per_org_result =
     \<lparr> success = [],
       failed = [\<lparr> n_org_id = Some ''B'', n_org_name = Some ''Org B'',
                   n_reason = ''Failed to configure broker integration'' \<rparr>],
       skipped = [] \<rparr>"

definition per_org_trace :: "request list" where
  "per_org_trace =
     [GET_org (Some ''B'') ''2024-10-15'',
      GET_broker_integrations (Some ''T'') (Some ''conn1''),
      DELETE_broker_integration (Some ''T'') (Some ''conn1'') (Some ''B'') (Some ''i2''),
      GET_org (Some ''B'') ''2024-10-15'']"

text \<open>
  Replies to one iteration for B: access is denied; in the first list the lookup of the
  name then raises, in the second it answers.
\<close>

definition denied_then_raising :: "reply list" where
  "denied_then_raising = [Reply 403 NoContent, Raise ''Read timed out'', Reply 404 NoContent]"

definition denied_replies :: "reply list" where
  "denied_replies = [Reply 403 NoContent, Reply 200 (OrgDetails (Some ''Org B''))]"

text \<open>
  Replies to the configure workflow when the connection has an integration of X, an
  organization that is not in the group.
\<close>

definition outside_replies :: "reply list" where
  "outside_replies =
     [two_orgs,
      Reply 200 (Integrations [integration_of ''i1'' ''A'', integration_of ''i9'' ''X'']),
      Reply 204 NoContent,
      Reply 200 NoContent,
      Reply 201 NoContent]"

section \<open>Running the model on the scripted service\<close>

lemma group_orgs_loop_single_page:
  "respond w (GET_group_orgs url) = (Reply 200 (OrgsPage ds None), w') \<Longrightarrow>
     group_orgs_loop respond url acc (w, t) =
       Some (Inr (acc @ map to_organization ds), (w', t @ [GET_group_orgs url]))"
  by (subst group_orgs_loop.simps) (simp add: make_request_def falsy_def)

lemmas run_defs =
  get_organizations_for_group_def group_orgs_loop_single_page
  configure_broker_for_organizations_bulk_def bulk_steps_def resolve_connection_def
  get_broker_connections_def get_broker_integrations_for_connection_def make_request_def
  falsy_def to_connection_def get_default_def integration_of_def target_orgs_def
  to_organization_def org_entry_def delete_broker_integration_def
  configure_target_def try_configure_target_def validate_organization_access_def versions_def
  create_broker_integration_def Let_def example_client_def empty_results_def
  get_organization_details_def get_organization_name_def
  configure_broker_for_organizations_def configure_org_def try_configure_org_def
  configure_broker_for_org_def try_configure_broker_for_org_def integration_id_def
  py_str_def

lemma example_orgs_run:
  "get_organizations_for_group scripted example_client None (example_replies, []) =
     Some (Inr example_orgs, (tl example_replies, [GET_group_orgs (group_orgs_url ''G'')]))"
  by (simp add: run_defs example_replies_def example_orgs_def)

lemma example_run:
  "configure_broker_for_organizations_bulk scripted example_client None (example_replies, []) =
     Some (Inr example_result, ([], example_trace))"
  by (simp add: run_defs example_replies_def example_result_def example_trace_def
        configured_entry_def)

lemma per_org_run:
  "configure_broker_for_organizations scripted example_client (Some ''conn1'')
     (Some [Some ''B'']) (per_org_replies, []) = Some (Inr per_org_result, ([], per_org_trace))"
  by (simp add: run_defs per_org_replies_def per_org_result_def per_org_trace_def)

section \<open>Removal mode\<close>

text \<open>
  C1. The removal workflow returns a record of success, failed and not\_found lists with
  the dry-run flag. In the code, \<^verbatim>\<open>main\<close> calls \<^verbatim>\<open>remove_connection_from_all_orgs\<close> on the
  client, and the class \<^verbatim>\<open>SnykAPI\<close> defines no attribute of that name: whatever the
  connection, the group and the flag, the run ends in \<^verbatim>\<open>sys.exit(1)\<close> with the
  \<^verbatim>\<open>AttributeError\<close>, no request is issued and no record is returned.
\<close>

theorem main_removal_mode_exits:
  "main_removal_mode method connection_id gid dry_run s =
     (SysExit 1 (repr ''SnykAPI'' @ '' object has no attribute '' @
                 repr ''remove_connection_from_all_orgs''), s)"
  by (simp add: main_removal_mode_def getattr_SnykAPI_def SnykAPI_attributes_def)

section \<open>Pagination of get\_organizations\_for\_group\<close>

lemma group_orgs_loop_serves:
  "serves respond w url pages \<Longrightarrow>
     \<exists>s'. group_orgs_loop respond url acc (w, t) =
             Some (Inr (acc @ map to_organization (concat pages)), s')"
proof (induction respond w url pages arbitrary: acc t rule: serves.induct)
  case (1 respond w url)
  then show ?case by simp
next
  case (2 respond w url page)
  then show ?case
    by (subst group_orgs_loop.simps)
       (auto simp: make_request_def split: prod.splits reply.splits)
next
  case (3 respond w url page next_page later)
  from "3.prems" obtain b w' where
    rep: "respond w (GET_group_orgs url) = (Reply 200 b, w')"
    and page: "body_orgs b = page" "page \<noteq> []" "\<not> falsy (body_next b)"
    and rest: "serves respond w' (absolute_url (the (body_next b))) (next_page # later)"
    by (auto split: prod.splits reply.splits)
  from "3.IH" [OF rep [symmetric] refl rest, of "acc @ map to_organization page" "t @ [GET_group_orgs url]"]
  obtain s' where
    "group_orgs_loop respond (absolute_url (the (body_next b))) (acc @ map to_organization page)
       (w', t @ [GET_group_orgs url]) =
     Some (Inr ((acc @ map to_organization page) @ map to_organization (concat (next_page # later))), s')"
    by blast
  with rep page show ?case
    by (subst group_orgs_loop.simps) (simp add: make_request_def)
qed

lemma group_orgs_loop_denied:
  "respond w (GET_group_orgs url) = (Reply code b, w') \<Longrightarrow> code = 404 \<or> code = 403 \<or> code = 401 \<Longrightarrow>
     group_orgs_loop respond url acc (w, t) = Some (Inr [], (w', t @ [GET_group_orgs url]))"
  by (subst group_orgs_loop.simps) (auto simp: make_request_def)


lemma get_organizations_for_group_loop:
  "(if gid = None then group_id c else gid) = Some g \<Longrightarrow> g \<noteq> [] \<Longrightarrow>
     get_organizations_for_group respond c gid s = group_orgs_loop respond (group_orgs_url g) [] s"
  by (simp add: get_organizations_for_group_def Let_def falsy_def)

text \<open>
  C6. For a group whose \<open>N\<close> organizations the service hands out in the pages \<open>pages\<close>,
  \<^verbatim>\<open>get_organizations_for_group\<close> returns, and returns the \<open>N\<close> records of all pages in
  the order of the service, page after page: it follows \<^verbatim>\<open>links.next\<close> until a page has
  none, and an empty page ends the list. When the service answers a request of the loop
  with 404, 403 or 401, the result is the empty list and not an exception.
\<close>

theorem pagination_complete:
  "((if gid = None then group_id c else gid) = Some g \<and> g \<noteq> [] \<and>
     serves respond w (group_orgs_url g) pages \<longrightarrow>
     (\<exists>s'. get_organizations_for_group respond c gid (w, t) =
              Some (Inr (map to_organization (concat pages)), s')) \<and>
     length (map to_organization (concat pages)) = sum_list (map length pages)) \<and>
   (respond w (GET_group_orgs url) = (Reply code b, w') \<and> (code = 404 \<or> code = 403 \<or> code = 401) \<longrightarrow>
     group_orgs_loop respond url acc (w, t) = Some (Inr [], (w', t @ [GET_group_orgs url])))"
proof (intro conjI impI)
  assume h: "(if gid = None then group_id c else gid) = Some g \<and> g \<noteq> [] \<and>
     serves respond w (group_orgs_url g) pages"
  then have g: "(if gid = None then group_id c else gid) = Some g" and ne: "g \<noteq> []"
    and sv: "serves respond w (group_orgs_url g) pages" by blast+
  from group_orgs_loop_serves [OF sv, of "[]" t] obtain s' where
    "group_orgs_loop respond (group_orgs_url g) [] (w, t) =
       Some (Inr (map to_organization (concat pages)), s')" by auto
  then have "get_organizations_for_group respond c gid (w, t) =
              Some (Inr (map to_organization (concat pages)), s')"
    by (simp only: get_organizations_for_group_loop [OF g ne])
  then show "\<exists>s'. get_organizations_for_group respond c gid (w, t) =
              Some (Inr (map to_organization (concat pages)), s')" ..
  show "length (map to_organization (concat pages)) = sum_list (map length pages)"
    by (simp add: length_concat)
next
  assume a: "respond w (GET_group_orgs url) = (Reply code b, w') \<and> (code = 404 \<or> code = 403 \<or> code = 401)"
  then have r: "respond w (GET_group_orgs url) = (Reply code b, w')"
    and d: "code = 404 \<or> code = 403 \<or> code = 401" by blast+
  show "group_orgs_loop respond url acc (w, t) = Some (Inr [], (w', t @ [GET_group_orgs url]))"
    by (rule group_orgs_loop_denied [of respond w url code b w', OF r d])
qed

theorem pagination_complete_witness:
  "serves scripted paged_replies (group_orgs_url ''G'')
     [[org_entry ''A'', org_entry ''B''], [org_entry ''C'']] \<and>
   (\<exists>s'. get_organizations_for_group scripted example_client None (paged_replies, []) =
      Some (Inr (map to_organization [org_entry ''A'', org_entry ''B'', org_entry ''C'']), s')) \<and>
   group_orgs_loop scripted (group_orgs_url ''G'') [] ([Reply 403 NoContent], []) =
     Some (Inr [], ([], [GET_group_orgs (group_orgs_url ''G'')]))"
proof -
  have sv: "serves scripted paged_replies (group_orgs_url ''G'')
     [[org_entry ''A'', org_entry ''B''], [org_entry ''C'']]"
    by (simp add: paged_replies_def falsy_def)
  from pagination_complete
         [of None example_client "''G''" scripted paged_replies
             "[[org_entry ''A'', org_entry ''B''], [org_entry ''C'']]" "[]"]
       pagination_complete
         [of None example_client "''G''" scripted "[Reply 403 NoContent]"
             "[[org_entry ''A'', org_entry ''B''], [org_entry ''C'']]" "[]"
             "group_orgs_url ''G''" 403 NoContent "[]" "[]"]
       sv
  show ?thesis by (simp add: example_client_def)
qed

section \<open>The version fallback of validate\_organization\_access\<close>

lemma validate_versions_by_status:
  "map status (probe_replies respond org vs w) = map Some cs \<Longrightarrow>
     fst (validate_versions respond org vs (w, t)) = Inr (access_by_status cs) \<and>
     snd (snd (validate_versions respond org vs (w, t))) =
       t @ map (GET_org org) (take (probes_made cs) vs)"
proof (induction vs arbitrary: w t cs)
  case Nil
  then show ?case by simp
next
  case (Cons v vs)
  obtain rep w' where step: "respond w (GET_org org v) = (rep, w')"
    by (cases "respond w (GET_org org v)")
  with Cons.prems obtain code rest where cs: "cs = code # rest"
    and rep: "status rep = Some code"
    and more: "map status (probe_replies respond org vs w') = map Some rest"
    by (cases cs) auto
  from rep obtain b where b: "rep = Reply code b" by (cases rep) auto
  from Cons.IH [OF more, of "t @ [GET_org org v]"] step b cs
  show ?case by (simp add: make_request_def)
qed

text \<open>
  C3. \<^verbatim>\<open>validate_organization_access\<close> tries the versions 2024-10-15, 2023-05-29 and
  2023-06-18 in this order. When the probes answer with the status codes \<open>cs\<close>, the
  result is the one of the rule on \<open>cs\<close>: true at the first 200, false at the first 401
  or 403, the next version after a 404, false when no version is left. The requests
  issued are the probes of the first \<open>probes_made cs\<close> versions and no other: no version
  is tried after a 200, a 401 or a 403.
\<close>

theorem validate_access_by_status:
  "map status (probe_replies respond org versions w) = map Some cs \<Longrightarrow>
     fst (validate_organization_access respond org (w, t)) = Inr (access_by_status cs) \<and>
     snd (snd (validate_organization_access respond org (w, t))) =
       t @ map (GET_org org) (take (probes_made cs) versions)"
  using validate_versions_by_status [of respond org versions w cs t]
  by (simp add: validate_organization_access_def)

theorem validate_access_by_status_witness:
  "fst (validate_organization_access scripted (Some ''B'')
          ([Reply 404 NoContent, Reply 403 NoContent, Reply 200 NoContent], [])) = Inr False \<and>
   snd (snd (validate_organization_access scripted (Some ''B'')
          ([Reply 404 NoContent, Reply 403 NoContent, Reply 200 NoContent], []))) =
     [GET_org (Some ''B'') ''2024-10-15'', GET_org (Some ''B'') ''2023-05-29'']"
  using validate_access_by_status
          [of scripted "Some ''B''" "[Reply 404 NoContent, Reply 403 NoContent, Reply 200 NoContent]"
              "[404, 403, 200]" "[]"]
  by (simp add: versions_def)

section \<open>Requests issued by the gateway and the bulk workflow\<close>

lemma issues_only_refl: "issues_only P s s"
  by (simp add: issues_only_def)

lemma issues_only_trans:
  "issues_only P s s' \<Longrightarrow> issues_only P s' s'' \<Longrightarrow> issues_only P s s''"
  by (auto simp: issues_only_def)

lemma issues_only_mono:
  "issues_only P s s' \<Longrightarrow> (\<And>rq. P rq \<Longrightarrow> Q rq) \<Longrightarrow> issues_only Q s s'"
  by (auto simp: issues_only_def list_all_iff)

lemma issues_only_fresh:
  "issues_only P (w, []) s' \<Longrightarrow> list_all P (snd s')"
  by (auto simp: issues_only_def)

lemma make_request_issues:
  "make_request respond rq s = (x, s') \<Longrightarrow> P rq \<Longrightarrow> issues_only P s s'"
  by (auto simp: make_request_def issues_only_def split: prod.splits reply.splits)

lemma validate_versions_issues:
  "validate_versions respond org vs s = (x, s') \<Longrightarrow> (\<And>v. P (GET_org org v)) \<Longrightarrow>
     issues_only P s s'"
proof (induction vs arbitrary: s)
  case Nil
  then show ?case by (simp add: issues_only_refl)
next
  case (Cons v vs)
  obtain y s1 where mr: "make_request respond (GET_org org v) s = (y, s1)"
    by (cases "make_request respond (GET_org org v) s")
  have step: "issues_only P s s1"
    by (rule make_request_issues [OF mr]) (rule Cons.prems)
  show ?case
  proof (cases y)
    case (Inl e)
    with Cons.prems(1) mr step show ?thesis by simp
  next
    case (Inr cb)
    obtain code b where cb: "cb = (code, b)" by (cases cb)
    show ?thesis
    proof (cases "code = 200 \<or> code = 403 \<or> code = 401")
      case True
      with Cons.prems(1) mr Inr cb step show ?thesis by (auto split: if_splits)
    next
      case False
      with Cons.prems(1) mr Inr cb have "validate_versions respond org vs s1 = (x, s')"
        by (auto split: if_splits)
      then have "issues_only P s1 s'" by (rule Cons.IH) (rule Cons.prems)
      with step show ?thesis by (rule issues_only_trans)
    qed
  qed
qed

lemma validate_organization_access_issues:
  "validate_organization_access respond org s = (x, s') \<Longrightarrow> (\<And>v. P (GET_org org v)) \<Longrightarrow>
     issues_only P s s'"
  unfolding validate_organization_access_def by (rule validate_versions_issues)

lemma group_orgs_loop_issues:
  assumes P: "\<And>u. P (GET_group_orgs u)"
    and run: "group_orgs_loop respond url acc s = Some out"
  shows "issues_only P s (snd out)"
proof (rule group_orgs_loop.raw_induct
         [where P = "\<lambda>r u a st y. issues_only P st (snd y)", OF _ run])
  fix loop :: "'a remote \<Rightarrow> string \<Rightarrow> organization list \<Rightarrow> 'a run \<Rightarrow>
                 ((error + organization list) \<times> 'a run) option"
    and r u a st y
  assume IH: "\<And>r' u' a' st' y'. loop r' u' a' st' = Some y' \<Longrightarrow> issues_only P st' (snd y')"
  assume body: "(case make_request r (GET_group_orgs u) st of
        (Inl e, s') \<Rightarrow> Some (Inl e, s')
      | (Inr (code, b), s') \<Rightarrow>
          if code = 200 then
            (if body_orgs b = [] then Some (Inr a, s')
             else if falsy (body_next b)
               then Some (Inr (a @ map to_organization (body_orgs b)), s')
               else loop r (absolute_url (the (body_next b)))
                      (a @ map to_organization (body_orgs b)) s')
          else if code = 404 then Some (Inr [], s')
          else if code = 403 \<or> code = 401 then Some (Inr [], s')
          else Some (Inr [], s')) = Some y"
  obtain x s1 where mr: "make_request r (GET_group_orgs u) st = (x, s1)"
    by (cases "make_request r (GET_group_orgs u) st")
  have step: "issues_only P st s1"
    by (rule make_request_issues [OF mr]) (rule P)
  show "issues_only P st (snd y)"
  proof (cases x)
    case (Inl e)
    with body mr have "y = (Inl e, s1)" by simp
    with step show ?thesis by simp
  next
    case (Inr cb)
    obtain code b where cb: "cb = (code, b)" by (cases cb)
    show ?thesis
    proof (cases "code = 200 \<and> body_orgs b \<noteq> [] \<and> \<not> falsy (body_next b)")
      case True
      with body mr Inr cb
      have "loop r (absolute_url (the (body_next b)))
              (a @ map to_organization (body_orgs b)) s1 = Some y"
        by simp
      then have "issues_only P s1 (snd y)" by (rule IH)
      with step show ?thesis by (rule issues_only_trans)
    next
      case False
      with body mr Inr cb have "snd y = s1" by (auto split: if_splits)
      with step show ?thesis by simp
    qed
  qed
qed

lemma get_organizations_for_group_issues:
  "get_organizations_for_group respond c gid s = Some (x, s') \<Longrightarrow>
     issues_only (\<lambda>rq. \<not> is_mutation rq) s s'"
  using group_orgs_loop_issues [of "\<lambda>rq. \<not> is_mutation rq" respond _ "[]" s "(x, s')"]
  by (auto simp: get_organizations_for_group_def Let_def issues_only_refl split: if_splits)

lemma get_broker_connections_issues:
  "get_broker_connections respond c oid s = (x, s') \<Longrightarrow>
     issues_only (\<lambda>rq. \<not> is_mutation rq) s s'"
  by (auto simp: get_broker_connections_def Let_def issues_only_refl
           split: if_splits prod.splits sum.splits
           dest!: make_request_issues [where P = "\<lambda>rq. \<not> is_mutation rq"])

lemma resolve_connection_issues:
  "resolve_connection respond c conn s = (x, s') \<Longrightarrow>
     issues_only (\<lambda>rq. \<not> is_mutation rq) s s'"
  by (auto simp: resolve_connection_def issues_only_refl
           split: if_splits prod.splits sum.splits list.splits
           dest: get_broker_connections_issues)

lemma get_broker_integrations_for_connection_issues:
  "get_broker_integrations_for_connection respond c conn s = (x, s') \<Longrightarrow>
     issues_only (\<lambda>rq. \<not> is_mutation rq) s s'"
  by (auto simp: get_broker_integrations_for_connection_def issues_only_refl
           split: if_splits prod.splits sum.splits
           dest!: make_request_issues [where P = "\<lambda>rq. \<not> is_mutation rq"])

lemma not_mutation_not_mutates: "\<not> is_mutation rq \<Longrightarrow> \<not> mutates S rq"
  by (cases rq) simp_all

lemma delete_broker_integration_issues:
  "delete_broker_integration respond c conn oid i s = (x, s') \<Longrightarrow> oid \<noteq> S \<Longrightarrow>
     issues_only (\<lambda>rq. \<not> mutates S rq) s s'"
  by (auto simp: delete_broker_integration_def issues_only_refl
           split: if_splits prod.splits sum.splits
           dest!: make_request_issues [where P = "\<lambda>rq. \<not> mutates S rq"])

lemma create_broker_integration_issues:
  "create_broker_integration respond c conn oid i ty s = (x, s') \<Longrightarrow> oid \<noteq> S \<Longrightarrow>
     issues_only (\<lambda>rq. \<not> mutates S rq) s s'"
  by (auto simp: create_broker_integration_def issues_only_refl
           split: if_splits prod.splits sum.splits
           dest!: make_request_issues [where P = "\<lambda>rq. \<not> mutates S rq"])

lemma deletion_pass_issues:
  "deletion_pass respond c conn ints s = (x, s') \<Longrightarrow>
     issues_only (\<lambda>rq. \<not> mutates (source_org_id c) rq) s s'"
proof (induction ints arbitrary: s)
  case Nil
  then show ?case by (simp add: issues_only_refl)
next
  case (Cons i ints)
  show ?case
  proof (cases "integ_org_id i \<noteq> source_org_id c")
    case False
    with Cons show ?thesis by simp
  next
    case True
    obtain y s1 where d: "delete_broker_integration respond c conn (integ_org_id i) (integ_id i) s = (y, s1)"
      by (cases "delete_broker_integration respond c conn (integ_org_id i) (integ_id i) s")
    have step: "issues_only (\<lambda>rq. \<not> mutates (source_org_id c) rq) s s1"
      by (rule delete_broker_integration_issues [OF d True])
    show ?thesis
    proof (cases y)
      case (Inl e)
      with Cons.prems True d step show ?thesis by simp
    next
      case (Inr ok)
      with Cons.prems True d have "deletion_pass respond c conn ints s1 = (x, s')" by simp
      then have "issues_only (\<lambda>rq. \<not> mutates (source_org_id c) rq) s1 s'" by (rule Cons.IH)
      with step show ?thesis by (rule issues_only_trans)
    qed
  qed
qed

lemma try_configure_target_issues:
  assumes "try_configure_target respond c conn si org res s = (x, s')"
    and "org_id org \<noteq> S"
  shows "issues_only (\<lambda>rq. \<not> mutates S rq) s s'"
proof -
  obtain a s1 where v: "validate_organization_access respond (org_id org) s = (a, s1)"
    by (cases "validate_organization_access respond (org_id org) s")
  have step: "issues_only (\<lambda>rq. \<not> mutates S rq) s s1"
    by (rule validate_organization_access_issues [OF v]) simp
  show ?thesis
  proof (cases "a = Inr True")
    case False
    with assms(1) v have "s' = s1"
      by (cases a) (auto simp: try_configure_target_def)
    with step show ?thesis by simp
  next
    case True
    obtain y s2 where cr: "create_broker_integration respond c conn (org_id org)
        (Some (py_str (org_id org) @ ''-'' @ py_str conn)) (integration_type si) s1 = (y, s2)"
      by (cases "create_broker_integration respond c conn (org_id org)
        (Some (py_str (org_id org) @ ''-'' @ py_str conn)) (integration_type si) s1")
    have step2: "issues_only (\<lambda>rq. \<not> mutates S rq) s1 s2"
      by (rule create_broker_integration_issues [OF cr assms(2)])
    from assms(1) v True cr have "s' = s2"
      by (cases y) (auto simp: try_configure_target_def split: if_splits)
    with step step2 show ?thesis by (auto intro: issues_only_trans)
  qed
qed

lemma configure_target_issues:
  "configure_target respond c conn si org res s = (res', s') \<Longrightarrow> org_id org \<noteq> S \<Longrightarrow>
     issues_only (\<lambda>rq. \<not> mutates S rq) s s'"
  by (auto simp: configure_target_def split: prod.splits sum.splits
           dest: try_configure_target_issues)

lemma creation_pass_issues:
  "creation_pass respond c conn si orgs res s = (res', s') \<Longrightarrow>
     \<forall>org \<in> set orgs. org_id org \<noteq> S \<Longrightarrow>
     issues_only (\<lambda>rq. \<not> mutates S rq) s s'"
proof (induction orgs arbitrary: res s)
  case Nil
  then show ?case by (simp add: issues_only_refl)
next
  case (Cons org orgs)
  obtain r1 s1 where ct: "configure_target respond c conn si org res s = (r1, s1)"
    by (cases "configure_target respond c conn si org res s")
  from Cons.prems(2) have "org_id org \<noteq> S" by simp
  then have step: "issues_only (\<lambda>rq. \<not> mutates S rq) s s1"
    by (rule configure_target_issues [OF ct])
  from Cons.prems(1) ct have "creation_pass respond c conn si orgs r1 s1 = (res', s')" by simp
  then have "issues_only (\<lambda>rq. \<not> mutates S rq) s1 s'"
    by (rule Cons.IH) (use Cons.prems(2) in simp)
  with step show ?case by (rule issues_only_trans)
qed

lemma target_orgs_not_source: "\<forall>org \<in> set (target_orgs c all_orgs). org_id org \<noteq> source_org_id c"
  by (simp add: target_orgs_def)

lemma bulk_steps_issues:
  assumes "bulk_steps respond c conn all_orgs s = (x, s')"
  shows "issues_only (\<lambda>rq. \<not> mutates (source_org_id c) rq) s s'"
proof -
  let ?P = "\<lambda>rq. \<not> mutates (source_org_id c) rq"
  have weak: "\<And>a b. issues_only (\<lambda>rq. \<not> is_mutation rq) a b \<Longrightarrow> issues_only ?P a b"
    by (erule issues_only_mono) (rule not_mutation_not_mutates)
  obtain rc s2 where rc: "resolve_connection respond c conn s = (rc, s2)"
    by (cases "resolve_connection respond c conn s")
  have st2: "issues_only ?P s s2" by (rule weak [OF resolve_connection_issues [OF rc]])
  show ?thesis
  proof (cases rc)
    case (Inl e)
    with assms rc st2 show ?thesis by (simp add: bulk_steps_def)
  next
    case (Inr co)
    show ?thesis
    proof (cases co)
      case None
      with assms rc Inr st2 show ?thesis by (simp add: bulk_steps_def)
    next
      case (Some cid)
      obtain gi s3 where gi: "get_broker_integrations_for_connection respond c cid s2 = (gi, s3)"
        by (cases "get_broker_integrations_for_connection respond c cid s2")
      have st3: "issues_only ?P s s3"
        by (rule issues_only_trans [OF st2 weak [OF get_broker_integrations_for_connection_issues [OF gi]]])
      show ?thesis
      proof (cases gi)
        case (Inl e)
        with assms rc Inr Some gi st3 show ?thesis by (simp add: bulk_steps_def)
      next
        case ints: (Inr ints)
        show ?thesis
        proof (cases "find (\<lambda>i. integ_org_id i = source_org_id c) ints")
          case None
          with assms rc Inr Some gi ints st3 show ?thesis by (simp add: bulk_steps_def)
        next
          case si: (Some si)
          obtain dp s4 where dp: "deletion_pass respond c cid ints s3 = (dp, s4)"
            by (cases "deletion_pass respond c cid ints s3")
          have st4: "issues_only ?P s s4"
            by (rule issues_only_trans [OF st3 deletion_pass_issues [OF dp]])
          show ?thesis
          proof (cases dp)
            case (Inl e)
            with assms rc Inr Some gi ints si dp st4 show ?thesis by (simp add: bulk_steps_def)
          next
            case u: (Inr u)
            obtain r5 s5 where cp: "creation_pass respond c cid si (target_orgs c all_orgs) empty_results s4 = (r5, s5)"
              by (cases "creation_pass respond c cid si (target_orgs c all_orgs) empty_results s4")
            have "issues_only ?P s4 s5"
              by (rule creation_pass_issues [OF cp target_orgs_not_source])
            with st4 have "issues_only ?P s s5" by (rule issues_only_trans)
            with assms rc Inr Some gi ints si dp u cp show ?thesis by (simp add: bulk_steps_def)
          qed
        qed
      qed
    qed
  qed
qed

lemma bulk_issues:
  assumes "configure_broker_for_organizations_bulk respond c conn s = Some (x, s')"
  shows "issues_only (\<lambda>rq. \<not> mutates (source_org_id c) rq) s s'"
proof -
  have weak: "\<And>a b. issues_only (\<lambda>rq. \<not> is_mutation rq) a b \<Longrightarrow>
      issues_only (\<lambda>rq. \<not> mutates (source_org_id c) rq) a b"
    by (erule issues_only_mono) (rule not_mutation_not_mutates)
  from assms obtain y s1 where g: "get_organizations_for_group respond c None s = Some (y, s1)"
    by (cases "get_organizations_for_group respond c None s")
       (auto simp: configure_broker_for_organizations_bulk_def)
  have st1: "issues_only (\<lambda>rq. \<not> mutates (source_org_id c) rq) s s1"
    by (rule weak [OF get_organizations_for_group_issues [OF g]])
  show ?thesis
  proof (cases y)
    case (Inl e)
    with assms g st1 show ?thesis by (simp add: configure_broker_for_organizations_bulk_def)
  next
    case (Inr all_orgs)
    show ?thesis
    proof (cases "all_orgs = []")
      case True
      with assms g Inr st1 show ?thesis by (simp add: configure_broker_for_organizations_bulk_def)
    next
      case False
      with assms g Inr have "bulk_steps respond c conn all_orgs s1 = (x, s')"
        by (simp add: configure_broker_for_organizations_bulk_def)
      from issues_only_trans [OF st1 bulk_steps_issues [OF this]] show ?thesis .
    qed
  qed
qed


section \<open>The bulk workflow\<close>

lemma try_configure_target_recorded:
  "try_configure_target r c conn si org res s = (Inr res', s') \<Longrightarrow>
     mset (recorded_ids res') = mset (recorded_ids res) + {#org_id org#}"
  by (auto simp: try_configure_target_def recorded_ids_def
           split: prod.splits sum.splits if_splits)

lemma configure_target_recorded:
  "configure_target r c conn si org res s = (res', s') \<Longrightarrow>
     mset (recorded_ids res') = mset (recorded_ids res) + {#org_id org#}"
  by (auto simp: configure_target_def recorded_ids_def
           split: prod.splits sum.splits dest: try_configure_target_recorded)

lemma creation_pass_recorded:
  "creation_pass r c conn si orgs res s = (res', s') \<Longrightarrow>
     mset (recorded_ids res') = mset (recorded_ids res) + mset (map org_id orgs)"
proof (induction orgs arbitrary: res s)
  case Nil
  then show ?case by simp
next
  case (Cons org orgs)
  obtain r1 s1 where ct: "configure_target r c conn si org res s = (r1, s1)"
    by (cases "configure_target r c conn si org res s")
  with Cons.prems have "creation_pass r c conn si orgs r1 s1 = (res', s')" by simp
  then have "mset (recorded_ids res') = mset (recorded_ids r1) + mset (map org_id orgs)"
    by (rule Cons.IH)
  with configure_target_recorded [OF ct] show ?case by simp
qed

lemma bulk_steps_recorded:
  "bulk_steps r c conn all_orgs s = (Inr res, s') \<Longrightarrow>
     res = empty_results \<or> mset (recorded_ids res) = mset (map org_id (target_orgs c all_orgs))"
  by (auto simp: bulk_steps_def recorded_ids_def empty_results_def
           split: prod.splits sum.splits option.splits
           dest!: creation_pass_recorded)

lemma target_orgs_ids:
  "set (map org_id (target_orgs c all_orgs)) = set (map org_id all_orgs) - {source_org_id c}"
  by (auto simp: target_orgs_def)

lemma bulk_orgs:
  "get_organizations_for_group respond c None s = Some (Inr all_orgs, s1) \<Longrightarrow>
     configure_broker_for_organizations_bulk respond c conn s =
       (if all_orgs = [] then Some (Inr empty_results, s1)
        else Some (bulk_steps respond c conn all_orgs s1))"
  by (simp add: configure_broker_for_organizations_bulk_def)

text \<open>
  C2. The target list of the configure workflow is the list of the group's organizations
  without those whose id is the source id, so the target ids are the group's ids minus
  the source id. Whatever the service answers, a run of
  \<^verbatim>\<open>configure_broker_for_organizations_bulk\<close> that ends (with a result or an exception)
  has issued no create and no delete call for the source organization. A run that returns
  a record returns the empty record of an early return, or has recorded under success or
  failed exactly the target organizations.
\<close>

theorem configure_never_mutates_source:
  "set (map org_id (target_orgs c all_orgs)) = set (map org_id all_orgs) - {source_org_id c} \<and>
   (configure_broker_for_organizations_bulk respond c conn (w, []) = Some (out, s') \<longrightarrow>
      list_all (\<lambda>rq. \<not> mutates (source_org_id c) rq) (snd s')) \<and>
   (get_organizations_for_group respond c None (w, []) = Some (Inr all_orgs, s1) \<and>
    configure_broker_for_organizations_bulk respond c conn (w, []) = Some (Inr res, s') \<longrightarrow>
      res = empty_results \<or>
      mset (recorded_ids res) = mset (map org_id (target_orgs c all_orgs)))"
proof (intro conjI impI)
  show "set (map org_id (target_orgs c all_orgs)) = set (map org_id all_orgs) - {source_org_id c}"
    by (rule target_orgs_ids)
next
  assume "configure_broker_for_organizations_bulk respond c conn (w, []) = Some (out, s')"
  then have "issues_only (\<lambda>rq. \<not> mutates (source_org_id c) rq) (w, []) s'"
    by (rule bulk_issues)
  then show "list_all (\<lambda>rq. \<not> mutates (source_org_id c) rq) (snd s')"
    by (rule issues_only_fresh)
next
  assume a: "get_organizations_for_group respond c None (w, []) = Some (Inr all_orgs, s1) \<and>
    configure_broker_for_organizations_bulk respond c conn (w, []) = Some (Inr res, s')"
  then have g: "get_organizations_for_group respond c None (w, []) = Some (Inr all_orgs, s1)"
    and b: "configure_broker_for_organizations_bulk respond c conn (w, []) = Some (Inr res, s')"
    by blast+
  show "res = empty_results \<or>
      mset (recorded_ids res) = mset (map org_id (target_orgs c all_orgs))"
  proof (cases "all_orgs = []")
    case True
    with bulk_orgs [OF g, of conn] b show ?thesis by simp
  next
    case False
    with bulk_orgs [OF g, of conn] b
    have "bulk_steps respond c conn all_orgs s1 = (Inr res, s')" by simp
    then show ?thesis by (rule bulk_steps_recorded)
  qed
qed

theorem configure_never_mutates_source_witness:
  "configure_broker_for_organizations_bulk scripted example_client None (example_replies, []) =
     Some (Inr example_result, ([], example_trace)) \<and>
   list_all (\<lambda>rq. \<not> mutates (Some ''A'') rq) example_trace \<and>
   mset (recorded_ids example_result) = {#Some ''B'', Some ''C''#}"
  using configure_never_mutates_source
          [of example_client example_orgs scripted None example_replies "Inr example_result"
              "([], example_trace)"
              "(tl example_replies, [GET_group_orgs (group_orgs_url ''G'')])" example_result]
        example_run example_orgs_run
  by (simp add: example_client_def example_result_def empty_results_def example_orgs_def
        target_orgs_def to_organization_def org_entry_def)

text \<open>
  C8. In the creation pass, when the processing of a target organization raises, the
  handler appends the organization to failed with the text of the exception as reason,
  and the pass goes on with the remaining organizations from the state the exception left.
  Whatever is raised, the pass ends with every organization of its list recorded once,
  under success or under failed.
\<close>

theorem creation_pass_isolates_exceptions:
  "(try_configure_target respond c conn si org res s = (Inl e, s') \<longrightarrow>
      creation_pass respond c conn si (org # rest) res s =
        creation_pass respond c conn si rest
          (res\<lparr>failed := failed res @
               [\<lparr> n_org_id = org_id org, n_org_name = Some (org_name org),
                  n_reason = str_of e \<rparr>]\<rparr>) s') \<and>
   mset (recorded_ids (fst (creation_pass respond c conn si orgs res s))) =
     mset (recorded_ids res) + mset (map org_id orgs)"
proof
  show "try_configure_target respond c conn si org res s = (Inl e, s') \<longrightarrow>
      creation_pass respond c conn si (org # rest) res s =
        creation_pass respond c conn si rest
          (res\<lparr>failed := failed res @
               [\<lparr> n_org_id = org_id org, n_org_name = Some (org_name org),
                  n_reason = str_of e \<rparr>]\<rparr>) s'"
    by (simp add: configure_target_def)
  show "mset (recorded_ids (fst (creation_pass respond c conn si orgs res s))) =
     mset (recorded_ids res) + mset (map org_id orgs)"
    by (cases "creation_pass respond c conn si orgs res s")
       (simp add: creation_pass_recorded)
qed

theorem creation_pass_isolates_exceptions_witness:
  "try_configure_target scripted example_client (Some ''conn1'') (integration_of ''i1'' ''A'')
     (to_organization (org_entry ''B'')) empty_results (raising_replies, []) =
     (Inl (RequestException ''Connection aborted''),
      (tl raising_replies, [GET_org (Some ''B'') ''2024-10-15''])) \<and>
   fst (creation_pass scripted example_client (Some ''conn1'') (integration_of ''i1'' ''A'')
     [to_organization (org_entry ''B''), to_organization (org_entry ''C'')] empty_results
     (raising_replies, [])) =
     \<lparr> success = [configured_entry ''C''],
       failed = [\<lparr> n_org_id = Some ''B'', n_org_name = Some ''Org B'',
                   n_reason = ''Connection aborted'' \<rparr>],
       skipped = [] \<rparr>"
proof -
  have raised: "try_configure_target scripted example_client (Some ''conn1'')
     (integration_of ''i1'' ''A'') (to_organization (org_entry ''B'')) empty_results
     (raising_replies, []) =
     (Inl (RequestException ''Connection aborted''),
      (tl raising_replies, [GET_org (Some ''B'') ''2024-10-15'']))"
    by (simp add: run_defs raising_replies_def)
  from creation_pass_isolates_exceptions
         [of scripted example_client "Some ''conn1''" "integration_of ''i1'' ''A''"
             "to_organization (org_entry ''B'')" empty_results "(raising_replies, [])"
             "RequestException ''Connection aborted''"
             "(tl raising_replies, [GET_org (Some ''B'') ''2024-10-15''])"
             "[to_organization (org_entry ''C'')]"]
       raised
  show ?thesis by (simp add: run_defs raising_replies_def configured_entry_def)
qed


text \<open>
  C4. When the group has no organization; or no connection is given and the source
  organization has none; or the source organization has no integration on the connection
  resolved: \<^verbatim>\<open>configure_broker_for_organizations_bulk\<close> returns the record with three
  empty lists, and every request it has issued until then is a read.
\<close>

theorem precondition_failure_returns_empty:
  "(get_organizations_for_group respond c None (w, []) = Some (Inr [], s1) \<longrightarrow>
      configure_broker_for_organizations_bulk respond c conn (w, []) =
        Some (Inr empty_results, s1) \<and>
      list_all (\<lambda>rq. \<not> is_mutation rq) (snd s1)) \<and>
   (get_organizations_for_group respond c None (w, []) = Some (Inr (org # orgs), s1) \<and>
    falsy conn \<and>
    get_broker_connections respond c (source_org_id c) s1 = (Inr [], s2) \<longrightarrow>
      configure_broker_for_organizations_bulk respond c conn (w, []) =
        Some (Inr empty_results, s2) \<and>
      list_all (\<lambda>rq. \<not> is_mutation rq) (snd s2)) \<and>
   (get_organizations_for_group respond c None (w, []) = Some (Inr (org # orgs), s1) \<and>
    resolve_connection respond c conn s1 = (Inr (Some cid), s2) \<and>
    get_broker_integrations_for_connection respond c cid s2 = (Inr ints, s3) \<and>
    find (\<lambda>i. integ_org_id i = source_org_id c) ints = None \<longrightarrow>
      configure_broker_for_organizations_bulk respond c conn (w, []) =
        Some (Inr empty_results, s3) \<and>
      list_all (\<lambda>rq. \<not> is_mutation rq) (snd s3))"
proof (intro conjI impI)
  assume a: "get_organizations_for_group respond c None (w, []) = Some (Inr [], s1)"
  from bulk_orgs [OF a]
  show "configure_broker_for_organizations_bulk respond c conn (w, []) =
        Some (Inr empty_results, s1)" by simp
  from get_organizations_for_group_issues [OF a]
  show "list_all (\<lambda>rq. \<not> is_mutation rq) (snd s1)" by (rule issues_only_fresh)
next
  assume a: "get_organizations_for_group respond c None (w, []) = Some (Inr (org # orgs), s1) \<and>
    falsy conn \<and> get_broker_connections respond c (source_org_id c) s1 = (Inr [], s2)"
  then have g: "get_organizations_for_group respond c None (w, []) = Some (Inr (org # orgs), s1)"
    and f: "falsy conn"
    and bc: "get_broker_connections respond c (source_org_id c) s1 = (Inr [], s2)" by blast+
  from f bc have "bulk_steps respond c conn (org # orgs) s1 = (Inr empty_results, s2)"
    by (simp add: bulk_steps_def resolve_connection_def)
  with bulk_orgs [OF g]
  show "configure_broker_for_organizations_bulk respond c conn (w, []) =
        Some (Inr empty_results, s2)" by simp
  from issues_only_trans [OF get_organizations_for_group_issues [OF g]
         get_broker_connections_issues [OF bc]]
  show "list_all (\<lambda>rq. \<not> is_mutation rq) (snd s2)" by (rule issues_only_fresh)
next
  assume a: "get_organizations_for_group respond c None (w, []) = Some (Inr (org # orgs), s1) \<and>
    resolve_connection respond c conn s1 = (Inr (Some cid), s2) \<and>
    get_broker_integrations_for_connection respond c cid s2 = (Inr ints, s3) \<and>
    find (\<lambda>i. integ_org_id i = source_org_id c) ints = None"
  then have g: "get_organizations_for_group respond c None (w, []) = Some (Inr (org # orgs), s1)"
    and rc: "resolve_connection respond c conn s1 = (Inr (Some cid), s2)"
    and gi: "get_broker_integrations_for_connection respond c cid s2 = (Inr ints, s3)"
    and nf: "find (\<lambda>i. integ_org_id i = source_org_id c) ints = None" by blast+
  from rc gi nf have "bulk_steps respond c conn (org # orgs) s1 = (Inr empty_results, s3)"
    by (simp add: bulk_steps_def)
  with bulk_orgs [OF g]
  show "configure_broker_for_organizations_bulk respond c conn (w, []) =
        Some (Inr empty_results, s3)" by simp
  from issues_only_trans [OF issues_only_trans [OF get_organizations_for_group_issues [OF g]
         resolve_connection_issues [OF rc]]
         get_broker_integrations_for_connection_issues [OF gi]]
  show "list_all (\<lambda>rq. \<not> is_mutation rq) (snd s3)" by (rule issues_only_fresh)
qed

theorem precondition_failure_returns_empty_witness:
  "configure_broker_for_organizations_bulk scripted example_client None
     (empty_group_replies, []) =
     Some (Inr empty_results, ([], [GET_group_orgs (group_orgs_url ''G'')])) \<and>
   configure_broker_for_organizations_bulk scripted example_client None
     (no_connection_replies, []) =
     Some (Inr empty_results,
           ([], [GET_group_orgs (group_orgs_url ''G''), GET_broker_connections (Some ''A'')])) \<and>
   configure_broker_for_organizations_bulk scripted example_client (Some ''conn1'')
     (no_source_integration_replies, []) =
     Some (Inr empty_results,
           ([], [GET_group_orgs (group_orgs_url ''G''),
                 GET_broker_integrations (Some ''T'') (Some ''conn1'')])) \<and>
   list_all (\<lambda>rq. \<not> is_mutation rq)
     [GET_group_orgs (group_orgs_url ''G''),
      GET_broker_integrations (Some ''T'') (Some ''conn1'')]"
proof -
  have o1: "get_organizations_for_group scripted example_client None (empty_group_replies, []) =
      Some (Inr [], ([], [GET_group_orgs (group_orgs_url ''G'')]))"
    by (simp add: run_defs empty_group_replies_def)
  have o2: "get_organizations_for_group scripted example_client None (no_connection_replies, []) =
      Some (Inr (to_organization (org_entry ''A'') # [to_organization (org_entry ''B'')]),
            ([Reply 200 (Connections [])], [GET_group_orgs (group_orgs_url ''G'')]))"
    by (simp add: get_organizations_for_group_def group_orgs_loop_single_page falsy_def
          example_client_def no_connection_replies_def two_orgs_def)
  have c2: "get_broker_connections scripted example_client (source_org_id example_client)
      ([Reply 200 (Connections [])], [GET_group_orgs (group_orgs_url ''G'')]) =
      (Inr [], ([], [GET_group_orgs (group_orgs_url ''G''), GET_broker_connections (Some ''A'')]))"
    by (simp add: run_defs)
  have o3: "get_organizations_for_group scripted example_client None
      (no_source_integration_replies, []) =
      Some (Inr (to_organization (org_entry ''A'') # [to_organization (org_entry ''B'')]),
            ([Reply 200 (Integrations [integration_of ''i2'' ''B''])],
             [GET_group_orgs (group_orgs_url ''G'')]))"
    by (simp add: get_organizations_for_group_def group_orgs_loop_single_page falsy_def
          example_client_def no_source_integration_replies_def two_orgs_def)
  have r3: "resolve_connection scripted example_client (Some ''conn1'')
      ([Reply 200 (Integrations [integration_of ''i2'' ''B''])],
       [GET_group_orgs (group_orgs_url ''G'')]) =
      (Inr (Some (Some ''conn1'')),
       ([Reply 200 (Integrations [integration_of ''i2'' ''B''])],
        [GET_group_orgs (group_orgs_url ''G'')]))"
    by (simp add: resolve_connection_def falsy_def)
  have i3: "get_broker_integrations_for_connection scripted example_client (Some ''conn1'')
      ([Reply 200 (Integrations [integration_of ''i2'' ''B''])],
       [GET_group_orgs (group_orgs_url ''G'')]) =
      (Inr [integration_of ''i2'' ''B''],
       ([], [GET_group_orgs (group_orgs_url ''G''),
             GET_broker_integrations (Some ''T'') (Some ''conn1'')]))"
    by (simp add: get_broker_integrations_for_connection_def make_request_def falsy_def
          example_client_def)
  have f3: "find (\<lambda>i. integ_org_id i = source_org_id example_client)
      [integration_of ''i2'' ''B''] = None"
    by (simp add: integration_of_def example_client_def)
  from precondition_failure_returns_empty
         [where respond = scripted and c = example_client and w = empty_group_replies
            and ?s1.0 = "([], [GET_group_orgs (group_orgs_url ''G'')])" and conn = None] o1
  have a: "configure_broker_for_organizations_bulk scripted example_client None
     (empty_group_replies, []) =
     Some (Inr empty_results, ([], [GET_group_orgs (group_orgs_url ''G'')]))" by simp
  from precondition_failure_returns_empty
         [where respond = scripted and c = example_client and w = no_connection_replies
            and ?s1.0 = "([Reply 200 (Connections [])], [GET_group_orgs (group_orgs_url ''G'')])"
            and conn = None
            and org = "to_organization (org_entry ''A'')"
            and orgs = "[to_organization (org_entry ''B'')]"
            and ?s2.0 = "([], [GET_group_orgs (group_orgs_url ''G''),
                               GET_broker_connections (Some ''A'')])"]
       o2 c2
  have b: "configure_broker_for_organizations_bulk scripted example_client None
     (no_connection_replies, []) =
     Some (Inr empty_results,
           ([], [GET_group_orgs (group_orgs_url ''G''), GET_broker_connections (Some ''A'')]))"
    by (simp add: falsy_def)
  from precondition_failure_returns_empty
         [where respond = scripted and c = example_client
            and w = no_source_integration_replies
            and ?s1.0 = "([Reply 200 (Integrations [integration_of ''i2'' ''B''])],
                          [GET_group_orgs (group_orgs_url ''G'')])"
            and conn = "Some ''conn1''"
            and org = "to_organization (org_entry ''A'')"
            and orgs = "[to_organization (org_entry ''B'')]"
            and ?s2.0 = "([Reply 200 (Integrations [integration_of ''i2'' ''B''])],
                          [GET_group_orgs (group_orgs_url ''G'')])"
            and cid = "Some ''conn1''"
            and ?s3.0 = "([], [GET_group_orgs (group_orgs_url ''G''),
                               GET_broker_integrations (Some ''T'') (Some ''conn1'')])"
            and ints = "[integration_of ''i2'' ''B'']"]
       o3 r3 i3 f3
  have c: "configure_broker_for_organizations_bulk scripted example_client (Some ''conn1'')
     (no_source_integration_replies, []) =
     Some (Inr empty_results,
           ([], [GET_group_orgs (group_orgs_url ''G''),
                 GET_broker_integrations (Some ''T'') (Some ''conn1'')])) \<and>
     list_all (\<lambda>rq. \<not> is_mutation rq)
       [GET_group_orgs (group_orgs_url ''G''),
        GET_broker_integrations (Some ''T'') (Some ''conn1'')]"
    by simp
  from a b c show ?thesis by blast
qed


text \<open>
  C5. The deletion pass deletes the integrations of the connection that belong to a target
  organization, and no integration of an organization outside the group. In the code the
  loop deletes every integration whose organization is not the source: with the group
  A (source) and B and an integration of X on the connection, the run issues the delete
  call for X, which is no organization of the group, and creates nothing for X after.
\<close>

theorem deletion_pass_deletes_outside_group:
  "get_organizations_for_group scripted example_client None (outside_replies, []) =
     Some (Inr (map to_organization [org_entry ''A'', org_entry ''B'']),
           (tl outside_replies, [GET_group_orgs (group_orgs_url ''G'')])) \<and>
   Some ''X'' \<notin> set (map org_id (map to_organization [org_entry ''A'', org_entry ''B''])) \<and>
   configure_broker_for_organizations_bulk scripted example_client (Some ''conn1'')
     (outside_replies, []) =
     Some (Inr \<lparr> success = [configured_entry ''B''], failed = [], skipped = [] \<rparr>,
           ([], [GET_group_orgs (group_orgs_url ''G''),
                 GET_broker_integrations (Some ''T'') (Some ''conn1''),
                 DELETE_broker_integration (Some ''T'') (Some ''conn1'') (Some ''X'') (Some ''i9''),
                 GET_org (Some ''B'') ''2024-10-15'',
                 POST_broker_integration (Some ''T'') (Some ''conn1'') (Some ''B'')
                   (Some ''bitbucket-server'')]))"
  by (simp add: run_defs outside_replies_def two_orgs_def configured_entry_def)


lemma try_configure_target_skipped:
  "try_configure_target r c conn si org res s = (Inr res', s') \<Longrightarrow> skipped res' = skipped res"
  by (auto simp: try_configure_target_def split: prod.splits sum.splits if_splits)

lemma configure_target_skipped:
  "configure_target r c conn si org res s = (res', s') \<Longrightarrow> skipped res' = skipped res"
  by (auto simp: configure_target_def split: prod.splits sum.splits dest: try_configure_target_skipped)

lemma creation_pass_skipped:
  "creation_pass r c conn si orgs res s = (res', s') \<Longrightarrow> skipped res' = skipped res"
proof (induction orgs arbitrary: res s)
  case Nil
  then show ?case by simp
next
  case (Cons org orgs)
  obtain r1 s1 where step: "configure_target r c conn si org res s = (r1, s1)"
    by (cases "configure_target r c conn si org res s")
  with Cons.prems have "creation_pass r c conn si orgs r1 s1 = (res', s')" by simp
  then have "skipped res' = skipped r1" by (rule Cons.IH)
  with configure_target_skipped [OF step] show ?case by simp
qed

lemma bulk_steps_skipped:
  "bulk_steps r c conn all_orgs s = (Inr res, s') \<Longrightarrow> skipped res = []"
  by (auto simp: bulk_steps_def empty_results_def
           split: prod.splits sum.splits option.splits dest: creation_pass_skipped)

text \<open>
  C10. Every record that \<^verbatim>\<open>configure_broker_for_organizations_bulk\<close> returns has an empty
  skipped list.
\<close>

theorem bulk_skipped_empty:
  "configure_broker_for_organizations_bulk r c conn s = Some (Inr res, s') \<Longrightarrow> skipped res = []"
  by (auto simp: configure_broker_for_organizations_bulk_def empty_results_def
           split: option.splits prod.splits sum.splits if_splits dest: bulk_steps_skipped)

theorem bulk_skipped_empty_witness:
  "configure_broker_for_organizations_bulk scripted example_client None (example_replies, []) =
     Some (Inr example_result, ([], example_trace)) \<and> skipped example_result = []"
  using bulk_skipped_empty [OF example_run] example_run by simp

section \<open>The per-organization workflow\<close>

lemma try_configure_broker_for_org_False:
  "fst (try_configure_broker_for_org r c oid conn s) \<noteq> Inr True"
  by (auto simp: try_configure_broker_for_org_def integration_id_def
           split: prod.splits sum.splits option.splits)

lemma configure_broker_for_org_False:
  "fst (configure_broker_for_org r c oid conn s) = False"
  using try_configure_broker_for_org_False [of r c oid conn s]
  by (auto simp: configure_broker_for_org_def split: prod.splits sum.splits)

lemma configure_broker_for_org_not_True:
  "configure_broker_for_org r c oid conn s = (ok, s') \<Longrightarrow> \<not> ok"
  using configure_broker_for_org_False [of r c oid conn s] by simp

lemma try_configure_org_success:
  "try_configure_org r c conn oid res s = (Inr res', s') \<Longrightarrow> success res' = success res"
  by (auto simp: try_configure_org_def split: prod.splits sum.splits if_splits
           dest: configure_broker_for_org_not_True)

lemma configure_org_success:
  "configure_org r c conn oid res s = (Inr res', s') \<Longrightarrow> success res' = success res"
  by (auto simp: configure_org_def split: prod.splits sum.splits dest: try_configure_org_success)

lemma configure_orgs_success:
  "configure_orgs r c conn ids res s = (Inr res', s') \<Longrightarrow> success res' = success res"
proof (induction ids arbitrary: res s)
  case Nil
  then show ?case by simp
next
  case (Cons oid ids)
  then show ?case
    by (auto split: prod.splits sum.splits dest: configure_org_success)
qed


text \<open>
  C9. \<^verbatim>\<open>_configure_broker_for_org\<close> returns \<^verbatim>\<open>False\<close> on every input: a run that passes
  the check of the source organization and the deletion step raises \<^verbatim>\<open>NameError\<close> at the
  undefined name \<^verbatim>\<open>integration_id\<close>, and the handler returns \<^verbatim>\<open>False\<close>. So every record
  that \<^verbatim>\<open>configure_broker_for_organizations\<close> returns has an empty success list.
\<close>

theorem configure_never_succeeds:
  "fst (configure_broker_for_org r c oid conn s) = False \<and>
   (configure_broker_for_organizations r c conn target_org_ids s = Some (Inr res, s') \<longrightarrow>
      success res = [])"
proof
  show "fst (configure_broker_for_org r c oid conn s) = False"
    by (rule configure_broker_for_org_False)
  show "configure_broker_for_organizations r c conn target_org_ids s = Some (Inr res, s') \<longrightarrow>
      success res = []"
    by (auto simp: configure_broker_for_organizations_def empty_results_def
             split: option.splits prod.splits sum.splits dest: configure_orgs_success)
qed

theorem configure_never_succeeds_witness:
  "configure_broker_for_organizations scripted example_client (Some ''conn1'')
     (Some [Some ''B'']) (per_org_replies, []) = Some (Inr per_org_result, ([], per_org_trace)) \<and>
   success per_org_result = []"
  using configure_never_succeeds
          [of scripted example_client "Some ''B''" "Some ''conn1''" "(per_org_replies, [])"
              "Some [Some ''B'']" per_org_result "([], per_org_trace)"]
        per_org_run
  by simp


text \<open>
  C7. When \<^verbatim>\<open>validate_organization_access\<close> returns false for an organization:
  \<^verbatim>\<open>configure_broker_for_organizations_bulk\<close> appends it to failed with the reason
  "Access denied" and issues nothing after the probes, so no creation is attempted;
  \<^verbatim>\<open>configure_broker_for_organizations\<close> appends it to skipped with the reason
  "Organization not accessible", once the lookup of the organization's name for that
  entry has returned.
\<close>

theorem access_denied_routing:
  "(validate_organization_access respond (org_id org) s = (Inr False, s1) \<longrightarrow>
      configure_target respond c conn si org res s =
        (res\<lparr>failed := failed res @
             [\<lparr> n_org_id = org_id org, n_org_name = Some (org_name org),
                n_reason = ''Access denied'' \<rparr>]\<rparr>, s1) \<and>
      issues_only (\<lambda>rq. \<not> is_mutation rq) s s1) \<and>
   (validate_organization_access respond oid s = (Inr False, s1) \<and>
    get_organization_name respond oid s1 = (Inr name, s2) \<longrightarrow>
      configure_org respond c conn oid res s =
        (Inr (res\<lparr>skipped := skipped res @
                  [\<lparr> n_org_id = oid, n_org_name = name,
                     n_reason = ''Organization not accessible'' \<rparr>]\<rparr>), s2))"
proof (intro conjI impI)
  assume v: "validate_organization_access respond (org_id org) s = (Inr False, s1)"
  then show "configure_target respond c conn si org res s =
        (res\<lparr>failed := failed res @
             [\<lparr> n_org_id = org_id org, n_org_name = Some (org_name org),
                n_reason = ''Access denied'' \<rparr>]\<rparr>, s1)"
    by (simp add: configure_target_def try_configure_target_def)
  show "issues_only (\<lambda>rq. \<not> is_mutation rq) s s1"
    by (rule validate_organization_access_issues [OF v]) simp
next
  assume "validate_organization_access respond oid s = (Inr False, s1) \<and>
    get_organization_name respond oid s1 = (Inr name, s2)"
  then show "configure_org respond c conn oid res s =
        (Inr (res\<lparr>skipped := skipped res @
                  [\<lparr> n_org_id = oid, n_org_name = name,
                     n_reason = ''Organization not accessible'' \<rparr>]\<rparr>), s2)"
    by (simp add: configure_org_def try_configure_org_def)
qed

theorem access_denied_routing_witness:
  "configure_target scripted example_client (Some ''conn1'') (integration_of ''i1'' ''A'')
     (to_organization (org_entry ''B'')) empty_results (denied_replies, []) =
     (\<lparr> success = [],
        failed = [\<lparr> n_org_id = Some ''B'', n_org_name = Some ''Org B'',
                    n_reason = ''Access denied'' \<rparr>],
        skipped = [] \<rparr>,
      (tl denied_replies, [GET_org (Some ''B'') ''2024-10-15''])) \<and>
   configure_org scripted example_client (Some ''conn1'') (Some ''B'') empty_results
     (denied_replies, []) =
     (Inr \<lparr> success = [], failed = [],
            skipped = [\<lparr> n_org_id = Some ''B'', n_org_name = Some ''Org B'',
                         n_reason = ''Organization not accessible'' \<rparr>] \<rparr>,
      ([], [GET_org (Some ''B'') ''2024-10-15'', GET_org (Some ''B'') ''2024-10-15'']))"
proof -
  have v: "validate_organization_access scripted (Some ''B'') (denied_replies, []) =
      (Inr False, (tl denied_replies, [GET_org (Some ''B'') ''2024-10-15'']))"
    by (simp add: run_defs denied_replies_def)
  have n: "get_organization_name scripted (Some ''B'')
      (tl denied_replies, [GET_org (Some ''B'') ''2024-10-15'']) =
      (Inr (Some ''Org B''),
       ([], [GET_org (Some ''B'') ''2024-10-15'', GET_org (Some ''B'') ''2024-10-15'']))"
    by (simp add: run_defs denied_replies_def)
  from access_denied_routing
         [where respond = scripted and org = "to_organization (org_entry ''B'')"
            and s = "(denied_replies, [])"
            and ?s1.0 = "(tl denied_replies, [GET_org (Some ''B'') ''2024-10-15''])"
            and c = example_client and conn = "Some ''conn1''"
            and si = "integration_of ''i1'' ''A''" and res = empty_results
            and oid = "Some ''B''" and name = "Some ''Org B''"
            and ?s2.0 = "([], [GET_org (Some ''B'') ''2024-10-15'',
                               GET_org (Some ''B'') ''2024-10-15''])"]
       v n
  show ?thesis by (simp add: to_organization_def org_entry_def get_default_def empty_results_def)
qed

text \<open>
  Without the condition on the lookup of the name the second half fails. In the run
  below access to B is denied (403), the lookup of its name for the skipped entry raises,
  and the lookup of the handler is answered (404): B is recorded under failed, and
  skipped stays empty.
\<close>

theorem access_denied_recorded_as_failed:
  "fst (validate_organization_access scripted (Some ''B'') (denied_then_raising, [])) = Inr False \<and>
   fst (configure_org scripted example_client (Some ''conn1'') (Some ''B'') empty_results
          (denied_then_raising, [])) =
     Inr \<lparr> success = [],
           failed = [\<lparr> n_org_id = Some ''B'', n_org_name = Some ''B'',
                       n_reason = ''Exception: Read timed out'' \<rparr>],
           skipped = [] \<rparr>"
  by (simp add: run_defs denied_then_raising_def)

end
